theory Spec2Isabelle
  imports
    Main
    "HOL-Library.Option_ord"
    "HOL-Library.Product_Lexorder"
    "HOL-Library.Char_ord"
    "HOL-Library.List_Lexorder"
begin

section \<open>Data model\<close>

text \<open>
  The tables of \<^verbatim>\<open>server/src/database/setup.ts\<close> and the types of
  \<^verbatim>\<open>server/src/types/index.ts\<close>. A table is the list of its rows in storage order.
  A row carries the columns that the modelled handlers read or write; a nullable column
  is an \<open>option\<close>. A \<^verbatim>\<open>DATE\<close> is a day number. Ids are JavaScript numbers that the
  \<^verbatim>\<open>INT\<close> columns hold, hence \<open>int\<close>.
\<close>

type_synonym date = int

datatype UserRole = Role_admin | Role_family_member | Role_visitor

datatype PermissionLevel = Level_view | Level_edit | Level_admin

datatype RelationshipType = parent_child | spouse | sibling

datatype RelationshipSubtype =
  mother | father | husband | wife | ex_husband | ex_wife | brother | sister

record person =
  p_id :: int
  p_first_name :: string
  p_last_name :: string
  p_birth_date :: "date option"
  p_family_id :: "int option"

record relationship =
  r_id :: int
  r_person1_id :: int
  r_person2_id :: int
  r_relationship_type :: RelationshipType
  r_relationship_subtype :: RelationshipSubtype
  r_marriage_date :: "date option"
  r_divorce_date :: "date option"
  r_is_active :: bool

record family =
  f_id :: int
  f_name :: string
  f_is_public :: bool

record user_family_permission =
  ufp_user_id :: int
  ufp_family_id :: int
  ufp_permission_level :: PermissionLevel

record database =
  persons :: "person list"
  relationships :: "relationship list"
  families :: "family list"
  user_family_permissions :: "user_family_permission list"
  relationships_auto_increment :: int

text \<open>The authenticated actor \<^verbatim>\<open>req.user\<close>; an absent actor is \<open>None\<close>.\<close>

record user =
  u_id :: int
  u_role :: UserRole

text \<open>
  The body of \<^verbatim>\<open>POST /api/relationships\<close> after \<^verbatim>\<open>createRelationshipSchema\<close> has
  accepted it: the schema admits exactly the three types and the eight subtypes, in any
  combination.
\<close>

record CreateRelationshipRequest =
  person1_id :: int
  person2_id :: int
  relationship_type :: RelationshipType
  relationship_subtype :: RelationshipSubtype
  marriage_date :: "date option"
  divorce_date :: "date option"

section \<open>Errors\<close>

text \<open>
  \<^verbatim>\<open>AppError(message, statusCode)\<close> of \<^verbatim>\<open>middleware/errorHandler.ts\<close> and its helpers.
  \<open>TypeError\<close> is what JavaScript throws on a property read of \<^verbatim>\<open>undefined\<close>;
  \<open>StorageError\<close> is a statement that the database refuses (a key or foreign key
  constraint), which \<^verbatim>\<open>executeQuery\<close> rethrows.
\<close>

datatype error = AppError string nat | TypeError | StorageError string

definition createValidationError :: "string \<Rightarrow> string \<Rightarrow> error" where
  "createValidationError field message =
     AppError (''Validation error: '' @ field @ '' - '' @ message) 400"

definition createNotFoundError :: "string \<Rightarrow> error" where
  "createNotFoundError resource = AppError (resource @ '' not found'') 404"

definition createForbiddenError :: "string \<Rightarrow> error" where
  "createForbiddenError message = AppError message 403"

text \<open>Decimal rendering of a number inside a template string.\<close>

definition digit_char :: "nat \<Rightarrow> char" where
  "digit_char n = ''0123456789'' ! (n mod 10)"

fun show_nat :: "nat \<Rightarrow> string" where
  "show_nat n =
     (if n < 10 then [digit_char n] else show_nat (n div 10) @ [digit_char n])"

declare show_nat.simps [simp del]

definition show_int :: "int \<Rightarrow> string" where
  "show_int i = (if i < 0 then ''-'' @ show_nat (nat (- i)) else show_nat (nat i))"

text \<open>\<^verbatim>\<open>xs[0]\<close>: the first element, or \<^verbatim>\<open>undefined\<close> on an empty array.\<close>

definition first_row :: "'a list \<Rightarrow> 'a option" where
  "first_row xs = (case xs of [] \<Rightarrow> None | x # _ \<Rightarrow> Some x)"

section \<open>Family permissions (\<^verbatim>\<open>routes/families.ts\<close>)\<close>

text \<open>
  \<^verbatim>\<open>const permissionLevels = { view: 1, edit: 2, admin: 3 }\<close> and
  \<^verbatim>\<open>checkFamilyPermission(userId, familyId, requiredLevel)\<close>: the grant rows of the pair
  are selected; none gives \<open>False\<close>, otherwise the first row's level is compared with
  the required one.
\<close>

fun permissionLevels :: "PermissionLevel \<Rightarrow> nat" where
  "permissionLevels Level_view = 1"
| "permissionLevels Level_edit = 2"
| "permissionLevels Level_admin = 3"

definition select_permissions :: "database \<Rightarrow> int \<Rightarrow> int \<Rightarrow> user_family_permission list" where
  "select_permissions db userId familyId =
     filter (\<lambda>g. ufp_user_id g = userId \<and> ufp_family_id g = familyId)
       (user_family_permissions db)"

definition checkFamilyPermission :: "database \<Rightarrow> int \<Rightarrow> int \<Rightarrow> PermissionLevel \<Rightarrow> bool" where
  "checkFamilyPermission db userId familyId requiredLevel =
     (case select_permissions db userId familyId of
        [] \<Rightarrow> False
      | g # _ \<Rightarrow>
          permissionLevels requiredLevel \<le> permissionLevels (ufp_permission_level g))"

text \<open>
  The block that the handlers of \<^verbatim>\<open>routes/families.ts\<close> place under
  \<^verbatim>\<open>// Check permissions\<close> (update family, delete family, add member, remove member,
  update permission):
  \<^verbatim>\<open>if (req.user.role !== 'admin') {
    const has = await checkFamilyPermission(req.user.id, familyId, level);
    if (!has) throw createForbiddenError(message); }\<close>
  It returns the error thrown, if any.
\<close>

definition check_permissions :: "database \<Rightarrow> user \<Rightarrow> int \<Rightarrow> PermissionLevel \<Rightarrow> string \<Rightarrow> error option" where
  "check_permissions db u familyId level message =
     (if u_role u \<noteq> Role_admin then
        (if \<not> checkFamilyPermission db (u_id u) familyId level
         then Some (createForbiddenError message) else None)
      else None)"

text \<open>
  \<^verbatim>\<open>GET /api/families/:id\<close>: the family row is looked up (\<open>404\<close> when absent); a caller
  whose role is not \<^verbatim>\<open>admin\<close> is refused when the resolver denies \<^verbatim>\<open>view\<close> and the
  family is not public. The response is the family row; the member list that the handler
  joins to it reads no table a decision depends on and is not carried.
\<close>

definition get_family :: "database \<Rightarrow> user option \<Rightarrow> int \<Rightarrow> error + family" where
  "get_family db req_user familyId =
     (case req_user of
        None \<Rightarrow> Inl (createForbiddenError ''Authentication required'')
      | Some u \<Rightarrow>
          (case filter (\<lambda>f. f_id f = familyId) (families db) of
             [] \<Rightarrow> Inl (createNotFoundError ''Family'')
           | fam # _ \<Rightarrow>
               if u_role u \<noteq> Role_admin
                  \<and> \<not> checkFamilyPermission db (u_id u) familyId Level_view
                  \<and> \<not> f_is_public fam
               then Inl (createForbiddenError ''Access denied to this family'')
               else Inr fam))"

section \<open>Relationships (\<^verbatim>\<open>routes/relationships.ts\<close>)\<close>

subsection \<open>Queries\<close>

text \<open>\<^verbatim>\<open>SELECT id, family_id FROM persons WHERE id IN (...)\<close>\<close>

definition select_persons_in :: "database \<Rightarrow> int list \<Rightarrow> person list" where
  "select_persons_in db ids = filter (\<lambda>p. p_id p \<in> set ids) (persons db)"

text \<open>
  \<^verbatim>\<open>SELECT * FROM relationships WHERE person1_id = ? AND person2_id = ? AND
  relationship_type = ?\<close>\<close>

definition select_existing :: "database \<Rightarrow> int \<Rightarrow> int \<Rightarrow> RelationshipType \<Rightarrow> relationship list" where
  "select_existing db p1 p2 t =
     filter (\<lambda>r. r_person1_id r = p1 \<and> r_person2_id r = p2 \<and> r_relationship_type r = t)
       (relationships db)"

text \<open>
  The created relationship with both endpoints' names:
  \<^verbatim>\<open>SELECT r.*, p1.first_name ..., p2.last_name ... FROM relationships r
  INNER JOIN persons p1 ON r.person1_id = p1.id
  INNER JOIN persons p2 ON r.person2_id = p2.id WHERE r.id = ?\<close>\<close>

record relationship_names = relationship +
  person1_first_name :: string
  person1_last_name :: string
  person2_first_name :: string
  person2_last_name :: string

definition with_names :: "relationship \<Rightarrow> person \<Rightarrow> person \<Rightarrow> relationship_names" where
  "with_names r p1 p2 =
     relationship.extend r
       (relationship_names.fields (p_first_name p1) (p_last_name p1)
          (p_first_name p2) (p_last_name p2))"

definition select_created :: "database \<Rightarrow> int \<Rightarrow> relationship_names list" where
  "select_created db insertId =
     [with_names r p1 p2.
        r \<leftarrow> relationships db,
        p1 \<leftarrow> persons db, r_person1_id r = p_id p1,
        p2 \<leftarrow> persons db, r_person2_id r = p_id p2,
        r_id r = insertId]"

subsection \<open>Insertion\<close>

text \<open>
  \<^verbatim>\<open>INSERT INTO relationships (person1_id, person2_id, relationship_type,
  relationship_subtype, marriage_date, divorce_date) VALUES (...)\<close> against the table's
  constraints: the primary key \<^verbatim>\<open>id\<close> (\<^verbatim>\<open>AUTO_INCREMENT\<close>), the key
  \<^verbatim>\<open>unique_relationship (person1_id, person2_id, relationship_type)\<close> and the two foreign
  keys into \<^verbatim>\<open>persons\<close>. \<^verbatim>\<open>is_active\<close> takes its default \<^verbatim>\<open>TRUE\<close>. The result is the
  new table state and \<^verbatim>\<open>insertId\<close>.
\<close>

definition new_row :: "int \<Rightarrow> CreateRelationshipRequest \<Rightarrow> relationship" where
  "new_row i v =
     \<lparr> r_id = i,
       r_person1_id = person1_id v,
       r_person2_id = person2_id v,
       r_relationship_type = relationship_type v,
       r_relationship_subtype = relationship_subtype v,
       r_marriage_date = marriage_date v,
       r_divorce_date = divorce_date v,
       r_is_active = True \<rparr>"

definition insert_relationship :: "database \<Rightarrow> CreateRelationshipRequest \<Rightarrow> error + (database \<times> int)" where
  "insert_relationship db v =
     (let i = relationships_auto_increment db in
      if i \<in> r_id ` set (relationships db)
         \<or> select_existing db (person1_id v) (person2_id v) (relationship_type v) \<noteq> []
      then Inl (StorageError ''ER_DUP_ENTRY'')
      else if person1_id v \<notin> p_id ` set (persons db) \<or> person2_id v \<notin> p_id ` set (persons db)
      then Inl (StorageError ''ER_NO_REFERENCED_ROW'')
      else Inr (db \<lparr> relationships := relationships db @ [new_row i v],
                     relationships_auto_increment := i + 1 \<rparr>, i))"

subsection \<open>\<^verbatim>\<open>POST /api/relationships\<close>\<close>

text \<open>
  \<^verbatim>\<open>// Validate relationship logic\<close>: the subtype must be one that the type allows.
\<close>

definition validate_relationship_logic :: "RelationshipType \<Rightarrow> RelationshipSubtype \<Rightarrow> error option" where
  "validate_relationship_logic t s =
     (if t = parent_child then
        (if s \<noteq> mother \<and> s \<noteq> father
         then Some (createValidationError ''relationship_subtype''
                ''Parent-child relationships must be mother or father'')
         else None)
      else if t = spouse then
        (if s \<notin> set [husband, wife, ex_husband, ex_wife]
         then Some (createValidationError ''relationship_subtype''
                ''Spouse relationships must be husband, wife, ex_husband, or ex_wife'')
         else None)
      else if t = sibling then
        (if s \<noteq> brother \<and> s \<noteq> sister
         then Some (createValidationError ''relationship_subtype''
                ''Sibling relationships must be brother or sister'')
         else None)
      else None)"

text \<open>
  \<^verbatim>\<open>import { checkFamilyPermission } from './families'\<close>, as \<^verbatim>\<open>routes/relationships.ts\<close>
  and \<^verbatim>\<open>routes/persons.ts\<close> have it. \<^verbatim>\<open>routes/families.ts\<close> declares the function with
  \<^verbatim>\<open>const\<close> and exports nothing but its router (\<^verbatim>\<open>export default router\<close>), so the
  module has no export of that name and the imported binding is \<^verbatim>\<open>undefined\<close>. A call
  of it throws a \<open>TypeError\<close> before any grant is looked up.
\<close>

definition imported_checkFamilyPermission ::
  "(database \<Rightarrow> int \<Rightarrow> int \<Rightarrow> PermissionLevel \<Rightarrow> bool) option" where
  "imported_checkFamilyPermission = None"

definition call_checkFamilyPermission ::
  "database \<Rightarrow> int \<Rightarrow> int \<Rightarrow> PermissionLevel \<Rightarrow> error + bool" where
  "call_checkFamilyPermission db userId familyId requiredLevel =
     (case imported_checkFamilyPermission of
        None \<Rightarrow> Inl TypeError
      | Some f \<Rightarrow> Inr (f db userId familyId requiredLevel))"

text \<open>
  The edit check on one endpoint: \<^verbatim>\<open>if (person.family_id) { if (!await
  checkFamilyPermission(req.user.id, person.family_id, 'edit')) throw ... }\<close>. The endpoint
  is the result of \<^verbatim>\<open>persons.find\<close>, and reading \<^verbatim>\<open>family_id\<close> of \<^verbatim>\<open>undefined\<close>
  throws.
\<close>

definition edit_access :: "database \<Rightarrow> user \<Rightarrow> person option \<Rightarrow> string \<Rightarrow> error option" where
  "edit_access db u found message =
     (case found of
        None \<Rightarrow> Some TypeError
      | Some p \<Rightarrow>
          (case p_family_id p of
             None \<Rightarrow> None
           | Some fid \<Rightarrow>
               if fid \<noteq> 0 then
                 (case call_checkFamilyPermission db (u_id u) fid Level_edit of
                    Inl e \<Rightarrow> Some e
                  | Inr hasEditAccess \<Rightarrow>
                      if \<not> hasEditAccess then Some (createForbiddenError message) else None)
               else None))"

definition post_permissions :: "database \<Rightarrow> user \<Rightarrow> person list \<Rightarrow> CreateRelationshipRequest \<Rightarrow> error option" where
  "post_permissions db u rows v =
     (if u_role u \<noteq> Role_admin then
        (case edit_access db u (find (\<lambda>p. p_id p = person1_id v) rows)
                ''Edit access required to person 1 family'' of
           Some e \<Rightarrow> Some e
         | None \<Rightarrow>
             edit_access db u (find (\<lambda>p. p_id p = person2_id v) rows)
               ''Edit access required to person 2 family'')
      else None)"

text \<open>
  The handler, in the order of its checks: authentication, both persons found
  (\<^verbatim>\<open>persons.length !== 2\<close>), edit access, no row for the same
  \<^verbatim>\<open>(person1_id, person2_id, relationship_type)\<close>, subtype allowed for the type, insertion.
  The result is the response or the error thrown, and the database afterwards.
\<close>

definition post_relationship ::
  "database \<Rightarrow> user option \<Rightarrow> CreateRelationshipRequest
     \<Rightarrow> (error + relationship_names option) \<times> database" where
  "post_relationship db req_user v =
     (case req_user of
        None \<Rightarrow> (Inl (createForbiddenError ''Authentication required''), db)
      | Some u \<Rightarrow>
          let rows = select_persons_in db [person1_id v, person2_id v] in
          if length rows \<noteq> 2
          then (Inl (createNotFoundError ''One or both persons not found''), db)
          else
            (case post_permissions db u rows v of
               Some e \<Rightarrow> (Inl e, db)
             | None \<Rightarrow>
                 if select_existing db (person1_id v) (person2_id v) (relationship_type v) \<noteq> []
                 then (Inl (createValidationError ''relationship''
                              ''This relationship already exists''), db)
                 else
                   (case validate_relationship_logic (relationship_type v)
                           (relationship_subtype v) of
                      Some e \<Rightarrow> (Inl e, db)
                    | None \<Rightarrow>
                        (case insert_relationship db v of
                           Inl e \<Rightarrow> (Inl e, db)
                         | Inr (db', insertId) \<Rightarrow>
                             (Inr (first_row (select_created db' insertId)), db')))))"

subsection \<open>\<^verbatim>\<open>POST /api/relationships/bulk\<close>\<close>

text \<open>
  \<^verbatim>\<open>[...new Set(relationships.flatMap(r => [r.person1_id, r.person2_id]))]\<close>: a
  \<^verbatim>\<open>Set\<close> keeps the first occurrence of each value, in insertion order.
\<close>

definition person_ids :: "CreateRelationshipRequest list \<Rightarrow> int list" where
  "person_ids rels =
     rev (remdups (rev (concat (map (\<lambda>r. [person1_id r, person2_id r]) rels))))"

text \<open>The permission loop over the persons found; the first refusal is thrown.\<close>

fun bulk_permissions :: "database \<Rightarrow> user \<Rightarrow> person list \<Rightarrow> error option" where
  "bulk_permissions db u [] = None"
| "bulk_permissions db u (p # ps) =
     (case p_family_id p of
        None \<Rightarrow> bulk_permissions db u ps
      | Some fid \<Rightarrow>
          if fid \<noteq> 0 then
            (case call_checkFamilyPermission db (u_id u) fid Level_edit of
               Inl e \<Rightarrow> Some e
             | Inr hasEditAccess \<Rightarrow>
                 if \<not> hasEditAccess
                 then Some (createForbiddenError
                        (''Edit access required to family of person '' @ show_int (p_id p)))
                 else bulk_permissions db u ps)
          else bulk_permissions db u ps)"

text \<open>
  The creation loop: for each item, in order, the same existence query as the single
  path; when no row exists the item is inserted and the created row (with names) is pushed
  onto \<^verbatim>\<open>createdRelationships\<close>; otherwise nothing happens. A statement that the database
  refuses ends the loop with what was written so far.
\<close>

fun bulk_loop ::
  "database \<Rightarrow> relationship_names option list \<Rightarrow> CreateRelationshipRequest list
     \<Rightarrow> (error + relationship_names option list) \<times> database" where
  "bulk_loop db createdRelationships [] = (Inr createdRelationships, db)"
| "bulk_loop db createdRelationships (rel # rels) =
     (if select_existing db (person1_id rel) (person2_id rel) (relationship_type rel) = []
      then
        (case insert_relationship db rel of
           Inl e \<Rightarrow> (Inl e, db)
         | Inr (db', insertId) \<Rightarrow>
             bulk_loop db'
               (createdRelationships @ [first_row (select_created db' insertId)]) rels)
      else bulk_loop db createdRelationships rels)"

text \<open>The response body: \<^verbatim>\<open>{ relationships: createdRelationships, message: `Created
  ${createdRelationships.length} new relationships` }\<close>.\<close>

record bulk_response =
  response_relationships :: "relationship_names option list"
  response_message :: string

definition post_relationships_bulk ::
  "database \<Rightarrow> user option \<Rightarrow> CreateRelationshipRequest list
     \<Rightarrow> (error + bulk_response) \<times> database" where
  "post_relationships_bulk db req_user rels =
     (case req_user of
        None \<Rightarrow> (Inl (createForbiddenError ''Authentication required''), db)
      | Some u \<Rightarrow>
          if rels = []
          then (Inl (createValidationError ''relationships''
                       ''Relationships array is required''), db)
          else
            let personIds = person_ids rels;
                rows = select_persons_in db personIds in
            if length rows \<noteq> length personIds
            then (Inl (createNotFoundError ''One or more persons not found''), db)
            else
              (case (if u_role u \<noteq> Role_admin then bulk_permissions db u rows else None) of
                 Some e \<Rightarrow> (Inl e, db)
               | None \<Rightarrow>
                   (case bulk_loop db [] rels of
                      (Inl e, db') \<Rightarrow> (Inl e, db')
                    | (Inr created, db') \<Rightarrow>
                        (Inr \<lparr> response_relationships = created,
                               response_message =
                                 ''Created '' @ show_nat (length created)
                                   @ '' new relationships'' \<rparr>, db'))))"

section \<open>Derived views (\<^verbatim>\<open>GET /api/persons/:id\<close> of \<^verbatim>\<open>routes/persons.ts\<close>)\<close>

text \<open>
  Each view is one \<^verbatim>\<open>SELECT\<close> over \<^verbatim>\<open>persons\<close> joined with \<^verbatim>\<open>relationships\<close>. A
  join is the list of the row combinations that satisfy the \<^verbatim>\<open>ON\<close> and \<^verbatim>\<open>WHERE\<close>
  conditions; \<^verbatim>\<open>ORDER BY\<close> is a sort by the tuple of its keys, ascending. MySQL orders
  \<^verbatim>\<open>NULL\<close> before every value when sorting ascending, which is the order of
  \<open>option\<close> with \<open>None\<close> least. Rows with equal keys keep their order.

  The tables are created with \<^verbatim>\<open>COLLATE=utf8mb4_unicode_ci\<close>, so \<^verbatim>\<open>p.first_name\<close> is
  compared by that collation (without regard to case or accents) and not by character
  codes. The collation belongs to the database server; the views take it as the
  parameter \<open>collate\<close>, the sort key by which the server compares two names.
\<close>

text \<open>
  \<^verbatim>\<open>SELECT p.* FROM persons p INNER JOIN relationships r ON p.id = r.person1_id
  WHERE r.person2_id = ? AND r.relationship_type = 'parent_child'
  ORDER BY r.relationship_subtype = 'father' DESC, p.first_name\<close>\<close>

definition get_parents :: "(string \<Rightarrow> 'k::linorder) \<Rightarrow> database \<Rightarrow> int \<Rightarrow> person list" where
  "get_parents collate db personId =
     map fst
       (sort_key (\<lambda>(p, r). (r_relationship_subtype r \<noteq> father, collate (p_first_name p)))
          [(p, r).
             p \<leftarrow> persons db,
             r \<leftarrow> relationships db, p_id p = r_person1_id r,
             r_person2_id r = personId \<and> r_relationship_type r = parent_child])"

text \<open>
  \<^verbatim>\<open>SELECT p.* FROM persons p INNER JOIN relationships r ON p.id = r.person2_id
  WHERE r.person1_id = ? AND r.relationship_type = 'parent_child'
  ORDER BY p.birth_date, p.first_name\<close>\<close>

definition get_children :: "(string \<Rightarrow> 'k::linorder) \<Rightarrow> database \<Rightarrow> int \<Rightarrow> person list" where
  "get_children collate db personId =
     sort_key (\<lambda>p. (p_birth_date p, collate (p_first_name p)))
       [p.
          p \<leftarrow> persons db,
          r \<leftarrow> relationships db, p_id p = r_person2_id r,
          r_person1_id r = personId \<and> r_relationship_type r = parent_child]"

text \<open>
  \<^verbatim>\<open>SELECT p.*, r.relationship_subtype, r.marriage_date, r.divorce_date FROM persons p
  INNER JOIN relationships r ON (p.id = r.person1_id OR p.id = r.person2_id)
  WHERE (r.person1_id = ? OR r.person2_id = ?) AND r.relationship_type = 'spouse'
  AND p.id != ? ORDER BY r.marriage_date, p.first_name\<close>\<close>

record spouse_row = person +
  s_relationship_subtype :: RelationshipSubtype
  s_marriage_date :: "date option"
  s_divorce_date :: "date option"

definition spouse_of :: "person \<Rightarrow> relationship \<Rightarrow> spouse_row" where
  "spouse_of p r =
     person.extend p
       (spouse_row.fields (r_relationship_subtype r) (r_marriage_date r) (r_divorce_date r))"

definition get_spouses :: "(string \<Rightarrow> 'k::linorder) \<Rightarrow> database \<Rightarrow> int \<Rightarrow> spouse_row list" where
  "get_spouses collate db personId =
     map (\<lambda>(p, r). spouse_of p r)
       (sort_key (\<lambda>(p, r). (r_marriage_date r, collate (p_first_name p)))
          [(p, r).
             p \<leftarrow> persons db,
             r \<leftarrow> relationships db, p_id p = r_person1_id r \<or> p_id p = r_person2_id r,
             (r_person1_id r = personId \<or> r_person2_id r = personId)
               \<and> r_relationship_type r = spouse \<and> p_id p \<noteq> personId])"

text \<open>
  \<^verbatim>\<open>SELECT DISTINCT p.* FROM persons p
  INNER JOIN relationships r1 ON p.id = r1.person2_id
  INNER JOIN relationships r2 ON r1.person1_id = r2.person1_id
  WHERE r2.person2_id = ? AND r1.relationship_type = 'parent_child'
  AND r2.relationship_type = 'parent_child' AND p.id != ?
  ORDER BY p.birth_date, p.first_name\<close>\<close>

definition get_siblings :: "(string \<Rightarrow> 'k::linorder) \<Rightarrow> database \<Rightarrow> int \<Rightarrow> person list" where
  "get_siblings collate db personId =
     sort_key (\<lambda>p. (p_birth_date p, collate (p_first_name p)))
       (remdups
          [p.
             p \<leftarrow> persons db,
             r1 \<leftarrow> relationships db, p_id p = r_person2_id r1,
             r2 \<leftarrow> relationships db, r_person1_id r1 = r_person1_id r2,
             r_person2_id r2 = personId \<and> r_relationship_type r1 = parent_child
               \<and> r_relationship_type r2 = parent_child \<and> p_id p \<noteq> personId])"

text \<open>
  The person row of the handler:
  \<^verbatim>\<open>SELECT p.*, f.name as family_name, f.is_public as family_is_public FROM persons p
  LEFT JOIN families f ON p.family_id = f.id WHERE p.id = ?\<close>. A person without a
  matching family has \<^verbatim>\<open>NULL\<close> in both joined columns.
\<close>

record person_row = person +
  family_name :: "string option"
  family_is_public :: "bool option"

definition select_person :: "database \<Rightarrow> int \<Rightarrow> person_row list" where
  "select_person db personId =
     concat (map (\<lambda>p.
        (case filter (\<lambda>f. p_family_id p = Some (f_id f)) (families db) of
           [] \<Rightarrow> [person.extend p (person_row.fields None None)]
         | fs \<Rightarrow>
             map (\<lambda>f. person.extend p
                    (person_row.fields (Some (f_name f)) (Some (f_is_public f)))) fs))
        (filter (\<lambda>p. p_id p = personId) (persons db)))"

text \<open>
  The handler: authentication, the person found (\<open>404\<close> otherwise), and for a caller
  who is not \<^verbatim>\<open>admin\<close> and a person with a family,
  \<^verbatim>\<open>const hasAccess = await checkFamilyPermission(req.user.id, person.family_id);
  if (!hasAccess && !person.family_is_public) throw ...\<close>, where the call is the call of
  the imported binding. The response carries the person and the four derived views (the
  raw relationship rows that the handler also returns are not carried).
\<close>

definition person_access :: "database \<Rightarrow> user \<Rightarrow> person_row \<Rightarrow> error option" where
  "person_access db u row =
     (if u_role u \<noteq> Role_admin then
        (case p_family_id row of
           None \<Rightarrow> None
         | Some fid \<Rightarrow>
             if fid \<noteq> 0 then
               (case call_checkFamilyPermission db (u_id u) fid Level_view of
                  Inl e \<Rightarrow> Some e
                | Inr hasAccess \<Rightarrow>
                    if \<not> hasAccess \<and> family_is_public row \<noteq> Some True
                    then Some (createForbiddenError ''Access denied to this person'')
                    else None)
             else None)
      else None)"

record person_response =
  response_person :: person_row
  response_parents :: "person list"
  response_children :: "person list"
  response_spouses :: "spouse_row list"
  response_siblings :: "person list"

definition get_person ::
  "(string \<Rightarrow> 'k::linorder) \<Rightarrow> database \<Rightarrow> user option \<Rightarrow> int \<Rightarrow> error + person_response" where
  "get_person collate db req_user personId =
     (case req_user of
        None \<Rightarrow> Inl (createForbiddenError ''Authentication required'')
      | Some u \<Rightarrow>
          (case select_person db personId of
             [] \<Rightarrow> Inl (createNotFoundError ''Person'')
           | row # _ \<Rightarrow>
               (case person_access db u row of
                  Some e \<Rightarrow> Inl e
                | None \<Rightarrow>
                    Inr \<lparr> response_person = row,
                          response_parents = get_parents collate db personId,
                          response_children = get_children collate db personId,
                          response_spouses = get_spouses collate db personId,
                          response_siblings = get_siblings collate db personId \<rparr>)))"

section \<open>Schema constraints\<close>

text \<open>
  The keys of \<^verbatim>\<open>setup.ts\<close> as predicates on a database state: the primary key of
  \<^verbatim>\<open>persons\<close>, the primary key of \<^verbatim>\<open>relationships\<close> with its counter ahead of every
  stored id, and \<^verbatim>\<open>UNIQUE KEY unique_relationship (person1_id, person2_id,
  relationship_type)\<close>.
\<close>

definition persons_primary_key :: "database \<Rightarrow> bool" where
  "persons_primary_key db = distinct (map p_id (persons db))"

definition relationships_primary_key :: "database \<Rightarrow> bool" where
  "relationships_primary_key db =
     (distinct (map r_id (relationships db))
      \<and> list_all (\<lambda>r. r_id r < relationships_auto_increment db) (relationships db))"

definition unique_relationship :: "database \<Rightarrow> bool" where
  "unique_relationship db =
     distinct (map (\<lambda>r. (r_person1_id r, r_person2_id r, r_relationship_type r))
                 (relationships db))"

section \<open>Orders and relations that the properties refer to\<close>

text \<open>
  The order of \<^verbatim>\<open>ORDER BY p.birth_date, p.first_name\<close> written out on two persons:
  an absent birth date comes before every present one, earlier dates come first, and
  equal (or both absent) dates are decided by the first name as the collation compares
  it.
\<close>

definition birth_then_name :: "(string \<Rightarrow> 'k::linorder) \<Rightarrow> person \<Rightarrow> person \<Rightarrow> bool" where
  "birth_then_name collate x y =
     (case (p_birth_date x, p_birth_date y) of
        (None, None) \<Rightarrow> collate (p_first_name x) \<le> collate (p_first_name y)
      | (None, Some _) \<Rightarrow> True
      | (Some _, None) \<Rightarrow> False
      | (Some a, Some b) \<Rightarrow>
          a < b \<or> (a = b \<and> collate (p_first_name x) \<le> collate (p_first_name y)))"

text \<open>
  The children query without its \<^verbatim>\<open>ORDER BY\<close>: the stored \<^verbatim>\<open>parent_child\<close> edges from
  \<open>personId\<close> that end in the person \<open>p\<close>.
\<close>

definition child_edges :: "database \<Rightarrow> int \<Rightarrow> person \<Rightarrow> relationship list" where
  "child_edges db personId p =
     filter (\<lambda>r. p_id p = r_person2_id r \<and> r_person1_id r = personId
                  \<and> r_relationship_type r = parent_child) (relationships db)"

text \<open>
  Two person ids share a parent when some id has a \<^verbatim>\<open>parent_child\<close> edge to each of
  them.
\<close>

definition shares_parent :: "database \<Rightarrow> int \<Rightarrow> int \<Rightarrow> bool" where
  "shares_parent db x y =
     list_ex (\<lambda>r1. list_ex (\<lambda>r2.
        r_relationship_type r1 = parent_child \<and> r_relationship_type r2 = parent_child
        \<and> r_person1_id r1 = r_person1_id r2
        \<and> r_person2_id r1 = x \<and> r_person2_id r2 = y) (relationships db)) (relationships db)"

text \<open>
  What the bulk creation is to do with a batch, given the ordered triples already
  stored: an item is new when its triple is neither stored nor that of an earlier item
  of the batch; the new items receive consecutive ids from the counter on.
\<close>

definition triple_of :: "CreateRelationshipRequest \<Rightarrow> int \<times> int \<times> RelationshipType" where
  "triple_of v = (person1_id v, person2_id v, relationship_type v)"

definition stored_triples :: "database \<Rightarrow> (int \<times> int \<times> RelationshipType) list" where
  "stored_triples db =
     map (\<lambda>r. (r_person1_id r, r_person2_id r, r_relationship_type r)) (relationships db)"

fun new_items ::
  "(int \<times> int \<times> RelationshipType) list \<Rightarrow> CreateRelationshipRequest list
     \<Rightarrow> CreateRelationshipRequest list" where
  "new_items seen [] = []"
| "new_items seen (v # vs) =
     (if triple_of v \<in> set seen then new_items seen vs
      else v # new_items (seen @ [triple_of v]) vs)"

fun number_rows :: "int \<Rightarrow> CreateRelationshipRequest list \<Rightarrow> relationship list" where
  "number_rows i [] = []"
| "number_rows i (v # vs) = new_row i v # number_rows (i + 1) vs"

text \<open>
  An entry of \<^verbatim>\<open>createdRelationships\<close> for a stored row: the row with the names of two
  stored persons that have the ids of its endpoints.
\<close>

definition created_entry :: "database \<Rightarrow> relationship_names option \<Rightarrow> relationship \<Rightarrow> bool" where
  "created_entry db c row =
     list_ex (\<lambda>p1. list_ex (\<lambda>p2.
        p_id p1 = r_person1_id row \<and> p_id p2 = r_person2_id row
        \<and> c = Some (with_names row p1 p2)) (persons db)) (persons db)"

section \<open>Example data\<close>

text \<open>
  A sort key for names written in unaccented Latin letters, where
  \<^verbatim>\<open>utf8mb4_unicode_ci\<close> orders by the letters without regard to case.
\<close>

definition fold_case :: "char \<Rightarrow> char" where
  "fold_case c =
     (case map_of (zip ''ABCDEFGHIJKLMNOPQRSTUVWXYZ'' ''abcdefghijklmnopqrstuvwxyz'') c of
        None \<Rightarrow> c
      | Some l \<Rightarrow> l)"

definition latin_ci :: "string \<Rightarrow> string" where
  "latin_ci name = map fold_case name"

text \<open>
  A couple (persons 1 and 2) with two children (3 and 4) and an unrelated person 5, in a
  public family 1; family 2 is private. User 5 holds an \<^verbatim>\<open>edit\<close> grant on family 1.
\<close>

definition agim :: person where
  "agim = \<lparr> p_id = 1, p_first_name = ''Agim'', p_last_name = ''Zhupani'',
            p_birth_date = Some 100, p_family_id = Some 1 \<rparr>"

definition besa :: person where
  "besa = \<lparr> p_id = 2, p_first_name = ''Besa'', p_last_name = ''Zhupani'',
            p_birth_date = Some 200, p_family_id = Some 1 \<rparr>"

definition drita :: person where
  "drita = \<lparr> p_id = 3, p_first_name = ''Drita'', p_last_name = ''Zhupani'',
             p_birth_date = None, p_family_id = Some 1 \<rparr>"

definition ceni :: person where
  "ceni = \<lparr> p_id = 4, p_first_name = ''Ceni'', p_last_name = ''Zhupani'',
            p_birth_date = Some 9000, p_family_id = Some 1 \<rparr>"

definition edon :: person where
  "edon = \<lparr> p_id = 5, p_first_name = ''Edon'', p_last_name = ''Krasniqi'',
            p_birth_date = Some 8000, p_family_id = None \<rparr>"

definition edge :: "int \<Rightarrow> int \<Rightarrow> int \<Rightarrow> RelationshipType \<Rightarrow> RelationshipSubtype \<Rightarrow> relationship" where
  "edge i a b t s =
     \<lparr> r_id = i, r_person1_id = a, r_person2_id = b, r_relationship_type = t,
       r_relationship_subtype = s, r_marriage_date = None, r_divorce_date = None,
       r_is_active = True \<rparr>"

definition request :: "int \<Rightarrow> int \<Rightarrow> RelationshipType \<Rightarrow> RelationshipSubtype \<Rightarrow> CreateRelationshipRequest" where
  "request a b t s =
     \<lparr> person1_id = a, person2_id = b, relationship_type = t, relationship_subtype = s,
       marriage_date = None, divorce_date = None \<rparr>"

definition zhupani :: family where
  "zhupani = \<lparr> f_id = 1, f_name = ''Zhupani'', f_is_public = True \<rparr>"

definition example_db :: database where
  "example_db =
     \<lparr> persons = [agim, besa, drita, ceni, edon],
       relationships =
         [edge 1 1 2 spouse husband,
          edge 2 1 3 parent_child father,
          edge 3 2 3 parent_child mother,
          edge 4 1 4 parent_child father,
          edge 5 2 4 parent_child mother],
       families = [zhupani, \<lparr> f_id = 2, f_name = ''Krasniqi'', f_is_public = False \<rparr>],
       user_family_permissions =
         [\<lparr> ufp_user_id = 5, ufp_family_id = 1, ufp_permission_level = Level_edit \<rparr>],
       relationships_auto_increment = 6 \<rparr>"

text \<open>Two children of one parent, born on the same day, named in different case.\<close>

definition twins_db :: database where
  "twins_db =
     \<lparr> persons =
         [agim,
          \<lparr> p_id = 2, p_first_name = ''Besa'', p_last_name = ''Zhupani'',
            p_birth_date = Some 9000, p_family_id = Some 1 \<rparr>,
          \<lparr> p_id = 3, p_first_name = ''adam'', p_last_name = ''Zhupani'',
            p_birth_date = Some 9000, p_family_id = Some 1 \<rparr>],
       relationships =
         [edge 1 1 2 parent_child father, edge 2 1 3 parent_child father],
       families = [zhupani],
       user_family_permissions = [],
       relationships_auto_increment = 3 \<rparr>"

definition site_admin :: user where
  "site_admin = \<lparr> u_id = 7, u_role = Role_admin \<rparr>"

definition editor :: user where
  "editor = \<lparr> u_id = 5, u_role = Role_family_member \<rparr>"

definition stranger :: user where
  "stranger = \<lparr> u_id = 9, u_role = Role_family_member \<rparr>"

section \<open>Auxiliary facts\<close>

lemma filter_key_le_one:
  "distinct (map f xs) \<Longrightarrow> length (filter (\<lambda>x. f x = a) xs) \<le> Suc 0"
proof (induction xs)
  case Nil
  then show ?case by simp
next
  case (Cons x xs)
  show ?case
  proof (cases "f x = a")
    case True
    have "f y \<noteq> a" if "y \<in> set xs" for y
    proof
      assume "f y = a"
      from that have "f y \<in> f ` set xs" by (rule imageI)
      with \<open>f y = a\<close> True Cons.prems show False by simp
    qed
    then have "filter (\<lambda>y. f y = a) xs = []"
      by (simp add: filter_empty_conv)
    with True show ?thesis by simp
  next
    case False
    with Cons show ?thesis by simp
  qed
qed

lemma count_list_distinct:
  "distinct xs \<Longrightarrow> count_list xs x = (if x \<in> set xs then 1 else 0)"
  by (induction xs) auto

lemma count_list_insort_key:
  "count_list (insort_key f a xs) x = count_list (a # xs) x"
  by (induction xs) auto

lemma count_list_sort_key:
  "count_list (sort_key f xs) x = count_list xs x"
  by (induction xs) (simp_all add: count_list_insort_key)

lemma count_list_concat_map:
  "count_list (concat (map g ps)) x = sum_list (map (\<lambda>p. count_list (g p) x) ps)"
  by (induction ps) simp_all

lemma count_list_replicate_rows:
  "count_list (concat (map (\<lambda>r. if P r then [p] else []) rs)) x
     = (if p = x then length (filter P rs) else 0)"
  by (induction rs) simp_all

lemma sum_list_count:
  "sum_list (map (\<lambda>p. if p = x then n p else 0) ps) = count_list ps x * n x"
  by (induction ps) simp_all

lemma count_get_children:
  "count_list (get_children K db personId) p
     = count_list (persons db) p * length (child_edges db personId p)"
proof -
  have rows: "[q. r \<leftarrow> relationships db, p_id q = r_person2_id r,
                 r_person1_id r = personId \<and> r_relationship_type r = parent_child]
      = concat (map (\<lambda>r. if p_id q = r_person2_id r \<and> r_person1_id r = personId
                            \<and> r_relationship_type r = parent_child then [q] else [])
          (relationships db))" for q
    by (rule arg_cong [where f = concat]) (rule map_cong, auto)
  have "count_list (get_children K db personId) p
      = sum_list (map (\<lambda>q. count_list
           (concat (map (\<lambda>r. if p_id q = r_person2_id r \<and> r_person1_id r = personId
                            \<and> r_relationship_type r = parent_child then [q] else [])
              (relationships db))) p) (persons db))"
    unfolding get_children_def count_list_sort_key
    by (simp only: count_list_concat_map rows)
  also have "\<dots> = sum_list (map (\<lambda>q. if q = p then length (child_edges db personId q) else 0)
                       (persons db))"
    by (simp only: count_list_replicate_rows child_edges_def)
  also have "\<dots> = count_list (persons db) p * length (child_edges db personId p)"
    by (rule sum_list_count)
  finally show ?thesis .
qed

lemma birth_then_name_key:
  "birth_then_name K x y
     \<longleftrightarrow> (p_birth_date x, K (p_first_name x)) \<le> (p_birth_date y, K (p_first_name y))"
  by (auto simp: birth_then_name_def less_eq_prod_def split: option.splits)

lemma shares_parent_sym: "shares_parent db x y \<longleftrightarrow> shares_parent db y x"
proof -
  have "shares_parent db y x" if "shares_parent db x y" for x y
  proof -
    from that obtain r1 r2 where
      r1: "r1 \<in> set (relationships db)" and r2: "r2 \<in> set (relationships db)"
      and p: "r_relationship_type r1 = parent_child" "r_relationship_type r2 = parent_child"
        "r_person1_id r1 = r_person1_id r2" "r_person2_id r1 = x" "r_person2_id r2 = y"
      unfolding shares_parent_def list_ex_iff by auto
    show ?thesis
      unfolding shares_parent_def list_ex_iff
      by (rule bexI [OF _ r2], rule bexI [OF _ r1]) (simp add: p)
  qed
  then show ?thesis by (intro iffI)
qed

lemma in_get_siblings:
  "p \<in> set (get_siblings K db a)
     \<longleftrightarrow> p \<in> set (persons db) \<and> p_id p \<noteq> a \<and> shares_parent db (p_id p) a"
proof
  assume "p \<in> set (get_siblings K db a)"
  then obtain r1 r2 where
    m: "p \<in> set (persons db)" "r1 \<in> set (relationships db)" "r2 \<in> set (relationships db)"
    and q: "r_relationship_type r1 = parent_child" "r_relationship_type r2 = parent_child"
      "r_person1_id r1 = r_person1_id r2" "r_person2_id r1 = p_id p" "r_person2_id r2 = a"
      "p_id p \<noteq> a"
    unfolding get_siblings_def by auto metis
  have "shares_parent db (p_id p) a"
    unfolding shares_parent_def list_ex_iff
    by (rule bexI [OF _ m(2)], rule bexI [OF _ m(3)]) (simp add: q)
  with m(1) q(6) show "p \<in> set (persons db) \<and> p_id p \<noteq> a \<and> shares_parent db (p_id p) a"
    by simp
next
  assume rhs: "p \<in> set (persons db) \<and> p_id p \<noteq> a \<and> shares_parent db (p_id p) a"
  then obtain r1 r2 where
    m: "r1 \<in> set (relationships db)" "r2 \<in> set (relationships db)"
    and q: "r_relationship_type r1 = parent_child" "r_relationship_type r2 = parent_child"
      "r_person1_id r1 = r_person1_id r2" "r_person2_id r1 = p_id p" "r_person2_id r2 = a"
    unfolding shares_parent_def list_ex_iff by auto
  show "p \<in> set (get_siblings K db a)"
    unfolding get_siblings_def using rhs m q by fastforce
qed

section \<open>The family permission resolver\<close>

text \<open>
  C2. The permission check lets a caller whose global role is \<^verbatim>\<open>admin\<close> through
  whatever the grants are; for any other caller it passes exactly when
  \<^verbatim>\<open>checkFamilyPermission\<close> holds, which is false without a grant row for the pair and,
  with one, true exactly when the granted level is at least the required one in the
  order \<^verbatim>\<open>view\<close> (1) \<open><\<close> \<^verbatim>\<open>edit\<close> (2) \<open><\<close> \<^verbatim>\<open>admin\<close> (3). An \<^verbatim>\<open>edit\<close> grant
  therefore authorizes \<^verbatim>\<open>view\<close> and \<^verbatim>\<open>edit\<close> and not \<^verbatim>\<open>admin\<close>.
\<close>

theorem permission_check_levels:
  "(u_role u = Role_admin \<longrightarrow> check_permissions db u f L msg = None)
   \<and> (u_role u \<noteq> Role_admin \<longrightarrow>
        (check_permissions db u f L msg = None) = checkFamilyPermission db (u_id u) f L)
   \<and> (select_permissions db a f = [] \<longrightarrow> \<not> checkFamilyPermission db a f L)
   \<and> (select_permissions db a f = g # gs \<longrightarrow>
        checkFamilyPermission db a f L
          = (permissionLevels L \<le> permissionLevels (ufp_permission_level g)))
   \<and> permissionLevels Level_view = 1 \<and> permissionLevels Level_edit = 2
   \<and> permissionLevels Level_admin = 3
   \<and> (select_permissions db a f = g # gs \<and> ufp_permission_level g = Level_edit \<longrightarrow>
        checkFamilyPermission db a f Level_view \<and> checkFamilyPermission db a f Level_edit
        \<and> \<not> checkFamilyPermission db a f Level_admin)"
  by (simp add: check_permissions_def checkFamilyPermission_def)

text \<open>
  On the example data: the site administrator, who holds no grant, passes an
  \<^verbatim>\<open>admin\<close>-level check on family 2, and user 5 with the \<^verbatim>\<open>edit\<close> grant on family 1
  passes \<^verbatim>\<open>view\<close> and \<^verbatim>\<open>edit\<close> there and fails \<^verbatim>\<open>admin\<close>.
\<close>

theorem permission_check_levels_witness:
  "u_role site_admin = Role_admin
   \<and> select_permissions example_db (u_id site_admin) 2 = []
   \<and> check_permissions example_db site_admin 2 Level_admin ''Admin access required'' = None
   \<and> select_permissions example_db 5 1
        = [\<lparr> ufp_user_id = 5, ufp_family_id = 1, ufp_permission_level = Level_edit \<rparr>]
   \<and> checkFamilyPermission example_db 5 1 Level_view
   \<and> checkFamilyPermission example_db 5 1 Level_edit
   \<and> \<not> checkFamilyPermission example_db 5 1 Level_admin"
proof -
  have adm: "u_role site_admin = Role_admin"
    by (simp add: site_admin_def)
  have none: "select_permissions example_db (u_id site_admin) 2 = []"
    by (simp add: select_permissions_def example_db_def site_admin_def)
  have grant: "select_permissions example_db 5 1
        = [\<lparr> ufp_user_id = 5, ufp_family_id = 1, ufp_permission_level = Level_edit \<rparr>]"
    by (simp add: select_permissions_def example_db_def)
  show ?thesis
    using adm none grant
      permission_check_levels [of site_admin example_db 2 Level_admin
        "''Admin access required''" 5
        "\<lparr> ufp_user_id = 5, ufp_family_id = 1, ufp_permission_level = Level_edit \<rparr>" "[]"]
      permission_check_levels [of site_admin example_db 1 Level_admin
        "''Admin access required''" 5
        "\<lparr> ufp_user_id = 5, ufp_family_id = 1, ufp_permission_level = Level_edit \<rparr>" "[]"]
    by simp
qed

text \<open>
  C5. For a user without a grant on a public family, \<^verbatim>\<open>checkFamilyPermission\<close> refuses
  \<^verbatim>\<open>view\<close>, while the handler's combined check (\<^verbatim>\<open>!hasAccess && !family.is_public\<close>)
  lets the request through; the resolver's answer does not depend on the families table
  at all, so the two decisions are computed independently.
\<close>

theorem public_family_split:
  assumes "select_permissions db (u_id u) F = []"
    and "u_role u = Role_family_member"
    and "filter (\<lambda>f. f_id f = F) (families db) = fam # rest"
    and "f_is_public fam"
  shows "\<not> checkFamilyPermission db (u_id u) F Level_view
         \<and> get_family db (Some u) F = Inr fam
         \<and> checkFamilyPermission (db \<lparr> families := fs \<rparr>) a f L
             = checkFamilyPermission db a f L"
  using assms
  by (simp add: checkFamilyPermission_def get_family_def select_permissions_def)

theorem public_family_split_witness:
  "select_permissions example_db (u_id stranger) 1 = []
   \<and> u_role stranger = Role_family_member
   \<and> filter (\<lambda>f. f_id f = 1) (families example_db) = zhupani # []
   \<and> f_is_public zhupani
   \<and> \<not> checkFamilyPermission example_db (u_id stranger) 1 Level_view
   \<and> get_family example_db (Some stranger) 1 = Inr zhupani"
proof -
  have h1: "select_permissions example_db (u_id stranger) 1 = []"
    by (simp add: select_permissions_def example_db_def stranger_def)
  have h2: "u_role stranger = Role_family_member"
    by (simp add: stranger_def)
  have h3: "filter (\<lambda>f. f_id f = 1) (families example_db) = zhupani # []"
    by (simp add: example_db_def zhupani_def)
  have h4: "f_is_public zhupani"
    by (simp add: zhupani_def)
  show ?thesis
    using h1 h2 h3 h4 public_family_split [OF h1 h2 h3 h4] by simp
qed

section \<open>Derived views\<close>

text \<open>
  C8. Children and parents are inverse views of the same \<^verbatim>\<open>parent_child\<close> edges: for
  stored persons \<open>p\<close> and \<open>c\<close>, \<open>c\<close> is among the children of \<open>p\<close> exactly when
  \<open>p\<close> is among the parents of \<open>c\<close>.
\<close>

theorem children_parents_inverse:
  assumes "p \<in> set (persons db)" and "c \<in> set (persons db)"
  shows "c \<in> set (get_children K db (p_id p)) \<longleftrightarrow> p \<in> set (get_parents K db (p_id c))"
  using assms by (auto simp: get_children_def get_parents_def image_iff)

theorem children_parents_inverse_witness:
  "agim \<in> set (persons example_db) \<and> drita \<in> set (persons example_db)
   \<and> drita \<in> set (get_children latin_ci example_db (p_id agim))
   \<and> agim \<in> set (get_parents latin_ci example_db (p_id drita))"
proof -
  have a: "agim \<in> set (persons example_db)"
    by (simp add: example_db_def)
  have d: "drita \<in> set (persons example_db)"
    by (simp add: example_db_def)
  have c: "drita \<in> set (get_children latin_ci example_db (p_id agim))"
    by code_simp
  show ?thesis
    using a d c children_parents_inverse [OF a d, where K = latin_ci] by simp
qed

text \<open>
  C9, as the code has it. The children are sorted by birth date ascending with the
  persons without a birth date placed first, and by first name, as the collation
  compares it, among equal birth dates; the list holds each stored person once for
  every \<^verbatim>\<open>parent_child\<close> edge from the queried person to it, and nobody else.
\<close>

theorem children_order:
  "sorted_wrt (birth_then_name K) (get_children K db personId)
   \<and> count_list (get_children K db personId) p
       = count_list (persons db) p * length (child_edges db personId p)"
proof
  have "sorted (map (\<lambda>p. (p_birth_date p, K (p_first_name p))) (get_children K db personId))"
    unfolding get_children_def by (rule sorted_sort_key)
  then show "sorted_wrt (birth_then_name K) (get_children K db personId)"
    by (simp add: sorted_map birth_then_name_key [abs_def])
next
  show "count_list (get_children K db personId) p
       = count_list (persons db) p * length (child_edges db personId p)"
    by (rule count_get_children)
qed

text \<open>
  Under a collation that ignores case, of two children born on the same day
  \<open>adam\<close> comes before \<open>Besa\<close>.
\<close>

lemma children_collation_example:
  "map p_first_name (get_children latin_ci twins_db 1) = [''adam'', ''Besa'']"
  by code_simp

text \<open>
  C9 as stated fails: of the two children of person 1 in the example data, the one
  without a birth date is returned first, before the one born on day 9000.
\<close>

theorem children_nulls_last_counterexample:
  "get_children latin_ci example_db 1 = [drita, ceni]
   \<and> p_birth_date drita = None \<and> p_birth_date ceni = Some 9000"
  by code_simp

text \<open>
  C6. For stored persons \<open>a\<close> and \<open>b\<close> with different ids, \<open>b\<close> occurs exactly once
  among the siblings of \<open>a\<close> if and only if the two share a parent; \<open>a\<close> never occurs
  among its own siblings; and \<open>b\<close> is a sibling of \<open>a\<close> exactly when \<open>a\<close> is one of
  \<open>b\<close>.
\<close>

theorem siblings_common_parent:
  assumes "a \<in> set (persons db)" and "b \<in> set (persons db)" and "p_id a \<noteq> p_id b"
  shows "(count_list (get_siblings K db (p_id a)) b = 1 \<longleftrightarrow> shares_parent db (p_id b) (p_id a))
         \<and> count_list (get_siblings K db (p_id a)) a = 0
         \<and> (b \<in> set (get_siblings K db (p_id a)) \<longleftrightarrow> a \<in> set (get_siblings K db (p_id b)))"
proof -
  have d: "distinct (get_siblings K db (p_id a))"
    by (simp add: get_siblings_def)
  have b_in: "b \<in> set (get_siblings K db (p_id a)) \<longleftrightarrow> shares_parent db (p_id b) (p_id a)"
    using assms by (simp add: in_get_siblings)
  have a_in: "a \<in> set (get_siblings K db (p_id b)) \<longleftrightarrow> shares_parent db (p_id b) (p_id a)"
    using assms by (simp add: in_get_siblings shares_parent_sym [of db "p_id a"])
  have a_out: "a \<notin> set (get_siblings K db (p_id a))"
    by (simp add: in_get_siblings)
  show ?thesis
    using b_in a_in a_out by (simp add: count_list_distinct [OF d])
qed

text \<open>
  Persons 3 and 4 of the example data have both parents in common, and each is listed
  once among the other's siblings.
\<close>

theorem siblings_common_parent_witness:
  "drita \<in> set (persons example_db) \<and> ceni \<in> set (persons example_db)
   \<and> p_id drita \<noteq> p_id ceni
   \<and> shares_parent example_db (p_id ceni) (p_id drita)
   \<and> count_list (get_siblings latin_ci example_db (p_id drita)) ceni = 1
   \<and> count_list (get_siblings latin_ci example_db (p_id drita)) drita = 0
   \<and> drita \<in> set (get_siblings latin_ci example_db (p_id ceni))"
proof -
  have h1: "drita \<in> set (persons example_db)"
    by (simp add: example_db_def)
  have h2: "ceni \<in> set (persons example_db)"
    by (simp add: example_db_def)
  have h3: "p_id drita \<noteq> p_id ceni"
    by (simp add: drita_def ceni_def)
  have sp: "shares_parent example_db (p_id ceni) (p_id drita)"
    by code_simp
  have m: "ceni \<in> set (get_siblings latin_ci example_db (p_id drita))"
    by code_simp
  show ?thesis
    using h1 h2 h3 sp m siblings_common_parent [OF h1 h2 h3, where K = latin_ci] by simp
qed

text \<open>The handler returns the four views as the queries compute them.\<close>

lemma get_person_views:
  assumes "get_person K db req_user personId = Inr resp"
  shows "response_parents resp = get_parents K db personId"
    and "response_children resp = get_children K db personId"
    and "response_spouses resp = get_spouses K db personId"
    and "response_siblings resp = get_siblings K db personId"
  using assms
  by (auto simp: get_person_def split: option.splits list.splits if_splits)

section \<open>Creating relationships\<close>

text \<open>
  C10. With the primary key of \<^verbatim>\<open>persons\<close> in force, a request whose two endpoints
  are the same id is answered \<open>404\<close> and leaves the database as it was, whatever the
  type and subtype and whether or not the person exists: the lookup
  \<^verbatim>\<open>WHERE id IN (a, a)\<close> cannot return two rows.
\<close>

theorem self_loop_not_found:
  assumes "persons_primary_key db"
  shows "post_relationship db (Some u)
           \<lparr> person1_id = a, person2_id = a, relationship_type = t,
             relationship_subtype = s, marriage_date = md, divorce_date = dd \<rparr>
         = (Inl (createNotFoundError ''One or both persons not found''), db)"
proof -
  have "length (filter (\<lambda>p. p_id p = a) (persons db)) \<le> Suc 0"
    using assms unfolding persons_primary_key_def by (rule filter_key_le_one)
  then have "length (select_persons_in db [a, a]) \<noteq> 2"
    by (simp add: select_persons_in_def)
  then show ?thesis
    by (simp add: post_relationship_def)
qed

theorem self_loop_not_found_witness:
  "persons_primary_key example_db
   \<and> 1 \<in> p_id ` set (persons example_db)
   \<and> post_relationship example_db (Some site_admin)
        \<lparr> person1_id = 1, person2_id = 1, relationship_type = sibling,
          relationship_subtype = brother, marriage_date = None, divorce_date = None \<rparr>
      = (Inl (createNotFoundError ''One or both persons not found''), example_db)"
proof -
  have pk: "persons_primary_key example_db"
    by code_simp
  have ex: "1 \<in> p_id ` set (persons example_db)"
    by code_simp
  show ?thesis
    using pk ex self_loop_not_found [OF pk] by simp
qed

section \<open>Facts about insertion and the two creation handlers\<close>

lemma insert_relationship_Inr:
  assumes "insert_relationship db v = Inr (db', i)"
  shows "i = relationships_auto_increment db"
    and "db' = db \<lparr> relationships := relationships db @ [new_row i v],
                    relationships_auto_increment := i + 1 \<rparr>"
    and "person1_id v \<in> p_id ` set (persons db)"
    and "person2_id v \<in> p_id ` set (persons db)"
    and "select_existing db (person1_id v) (person2_id v) (relationship_type v) = []"
    and "i \<notin> r_id ` set (relationships db)"
  using assms by (auto simp: insert_relationship_def Let_def split: if_splits)

lemma post_relationship_Inr:
  assumes "post_relationship db req_user v = (Inr resp, db')"
  shows "length (select_persons_in db [person1_id v, person2_id v]) = 2"
    and "insert_relationship db v = Inr (db', relationships_auto_increment db)"
    and "validate_relationship_logic (relationship_type v) (relationship_subtype v) = None"
proof -
  from assms obtain i where
    "length (select_persons_in db [person1_id v, person2_id v]) = 2
     \<and> insert_relationship db v = Inr (db', i)
     \<and> validate_relationship_logic (relationship_type v) (relationship_subtype v) = None"
    by (auto simp: post_relationship_def Let_def
          split: option.splits if_splits sum.splits prod.splits)
  then show "length (select_persons_in db [person1_id v, person2_id v]) = 2"
    and "insert_relationship db v = Inr (db', relationships_auto_increment db)"
    and "validate_relationship_logic (relationship_type v) (relationship_subtype v) = None"
    using insert_relationship_Inr(1) by auto
qed

lemma p_id_spouse_of [simp]: "p_id (spouse_of p r) = p_id p"
  by (simp add: spouse_of_def person.defs)

lemma spouse_edge_listed:
  assumes "r \<in> set (relationships db)" and "r_relationship_type r = spouse"
    and "p \<in> set (persons db)" and "p_id p \<noteq> x"
    and "(p_id p = r_person1_id r \<and> r_person2_id r = x)
         \<or> (p_id p = r_person2_id r \<and> r_person1_id r = x)"
  shows "p_id p \<in> p_id ` set (get_spouses K db x)"
proof -
  define L where "L = [(p, r).
             p \<leftarrow> persons db,
             r \<leftarrow> relationships db, p_id p = r_person1_id r \<or> p_id p = r_person2_id r,
             (r_person1_id r = x \<or> r_person2_id r = x)
               \<and> r_relationship_type r = spouse \<and> p_id p \<noteq> x]"
  have "(p, r) \<in> set L"
    unfolding L_def using assms by auto
  then have "(\<lambda>(p, r). spouse_of p r) (p, r) \<in> (\<lambda>(p, r). spouse_of p r) ` set L"
    by (rule imageI)
  moreover have "set (get_spouses K db x) = (\<lambda>(p, r). spouse_of p r) ` set L"
    unfolding get_spouses_def L_def by simp
  ultimately have "spouse_of p r \<in> set (get_spouses K db x)"
    by simp
  then have "p_id (spouse_of p r) \<in> p_id ` set (get_spouses K db x)"
    by (rule imageI)
  then show ?thesis by simp
qed

lemma two_rows_distinct_ids:
  assumes "persons_primary_key db" and "length (select_persons_in db [a, b]) = 2"
  shows "a \<noteq> b"
proof
  assume "a = b"
  have "length (filter (\<lambda>p. p_id p = a) (persons db)) \<le> Suc 0"
    using assms(1) unfolding persons_primary_key_def by (rule filter_key_le_one)
  with \<open>a = b\<close> assms(2) show False
    by (simp add: select_persons_in_def)
qed


lemma insert_relationship_unique:
  assumes "unique_relationship db" and "insert_relationship db v = Inr (db', i)"
  shows "unique_relationship db'"
proof -
  note ins = insert_relationship_Inr [OF assms(2)]
  have "\<forall>r \<in> set (relationships db).
          \<not> (r_person1_id r = person1_id v \<and> r_person2_id r = person2_id v
              \<and> r_relationship_type r = relationship_type v)"
    using ins(5) by (simp add: select_existing_def filter_empty_conv)
  then have "(person1_id v, person2_id v, relationship_type v)
      \<notin> (\<lambda>r. (r_person1_id r, r_person2_id r, r_relationship_type r)) ` set (relationships db)"
    by auto
  with assms(1) show ?thesis
    by (simp add: unique_relationship_def ins(2) new_row_def)
qed

lemma post_relationship_snd:
  "snd (post_relationship db req_user v) = db
   \<or> (\<exists>i. insert_relationship db v = Inr (snd (post_relationship db req_user v), i))"
  by (auto simp: post_relationship_def Let_def
        split: option.splits if_splits sum.splits prod.splits)

lemma post_relationship_unique:
  assumes "unique_relationship db"
  shows "unique_relationship (snd (post_relationship db req_user v))"
  using post_relationship_snd [of db req_user v] assms insert_relationship_unique
  by metis

lemma bulk_loop_unique:
  "unique_relationship db \<Longrightarrow> unique_relationship (snd (bulk_loop db acc rels))"
proof (induction rels arbitrary: db acc)
  case Nil
  then show ?case by simp
next
  case (Cons rel rels)
  show ?case
  proof (cases "select_existing db (person1_id rel) (person2_id rel) (relationship_type rel) = []")
    case False
    with Cons show ?thesis by simp
  next
    case True
    show ?thesis
    proof (cases "insert_relationship db rel")
      case (Inl e)
      with True Cons.prems show ?thesis by simp
    next
      case (Inr a)
      obtain db' i where a: "a = (db', i)" by (cases a)
      have "unique_relationship db'"
        using Cons.prems Inr a by (auto intro: insert_relationship_unique)
      then have "unique_relationship (snd (bulk_loop db'
          (acc @ [first_row (select_created db' i)]) rels))"
        by (rule Cons.IH)
      with True Inr a show ?thesis by simp
    qed
  qed
qed

lemma post_relationships_bulk_snd:
  "snd (post_relationships_bulk db req_user rels) = db
   \<or> snd (post_relationships_bulk db req_user rels) = snd (bulk_loop db [] rels)"
  by (auto simp: post_relationships_bulk_def Let_def
        split: option.splits if_splits sum.splits prod.splits)

lemma post_relationships_bulk_unique:
  assumes "unique_relationship db"
  shows "unique_relationship (snd (post_relationships_bulk db req_user rels))"
  using post_relationships_bulk_snd [of db req_user rels] assms bulk_loop_unique [OF assms]
  by metis

lemma duplicate_error_distinct:
  "createForbiddenError m \<noteq> createValidationError ''relationship'' ''This relationship already exists''"
  "createNotFoundError n \<noteq> createValidationError ''relationship'' ''This relationship already exists''"
  "validate_relationship_logic t s \<noteq> Some (createValidationError ''relationship'' ''This relationship already exists'')"
  by (simp_all add: createForbiddenError_def createNotFoundError_def
        createValidationError_def validate_relationship_logic_def)

lemma edit_access_not_duplicate:
  "edit_access db u found m \<noteq> Some (createValidationError ''relationship'' ''This relationship already exists'')"
  by (simp add: edit_access_def call_checkFamilyPermission_def
        imported_checkFamilyPermission_def createForbiddenError_def createValidationError_def
        split: option.splits)

lemma post_permissions_not_duplicate:
  "post_permissions db u rows v \<noteq> Some (createValidationError ''relationship'' ''This relationship already exists'')"
  using edit_access_not_duplicate
  by (simp add: post_permissions_def split: option.splits) metis


lemma post_relationship_existing:
  assumes "select_existing db (person1_id v) (person2_id v) (relationship_type v) \<noteq> []"
  shows "snd (post_relationship db req_user v) = db"
    and "\<exists>e. fst (post_relationship db req_user v) = Inl e"
  using assms
  by (auto simp: post_relationship_def Let_def split: option.splits)

lemma post_relationship_duplicate:
  assumes "select_existing db (person1_id v) (person2_id v) (relationship_type v) \<noteq> []"
    and "length (select_persons_in db [person1_id v, person2_id v]) = 2"
    and "post_permissions db u (select_persons_in db [person1_id v, person2_id v]) v = None"
  shows "post_relationship db (Some u) v =
           (Inl (createValidationError ''relationship'' ''This relationship already exists''), db)"
  using assms by (simp add: post_relationship_def)

lemma post_relationship_duplicate_only:
  assumes "fst (post_relationship db req_user v) =
             Inl (createValidationError ''relationship'' ''This relationship already exists'')"
  shows "select_existing db (person1_id v) (person2_id v) (relationship_type v) \<noteq> []"
proof (rule ccontr)
  assume "\<not> ?thesis"
  then have e: "select_existing db (person1_id v) (person2_id v) (relationship_type v) = []"
    by simp
  have "insert_relationship db v \<noteq> Inl (createValidationError ''relationship'' ''This relationship already exists'')"
    by (simp add: insert_relationship_def Let_def createValidationError_def)
  with assms e show False
    using post_permissions_not_duplicate [of db _ _ v]
      duplicate_error_distinct(3) [of "relationship_type v" "relationship_subtype v"]
    by (auto simp: post_relationship_def Let_def duplicate_error_distinct
          split: option.splits if_splits sum.splits prod.splits)
qed


lemma show_nat_1: "show_nat (Suc 0) = ''1''"
  by (subst show_nat.simps) (simp add: digit_char_def)

lemma set_person_ids:
  "set (person_ids rels) = (\<Union>r \<in> set rels. {person1_id r, person2_id r})"
  by (auto simp: person_ids_def)

lemma all_persons_found:
  assumes "persons_primary_key db"
    and "length (select_persons_in db (person_ids rels)) = length (person_ids rels)"
  shows "set (person_ids rels) \<subseteq> p_id ` set (persons db)"
proof -
  let ?F = "select_persons_in db (person_ids rels)"
  have d: "distinct (map p_id ?F)"
    using assms(1) unfolding persons_primary_key_def select_persons_in_def
    by (rule distinct_map_filter)
  have sub: "p_id ` set ?F \<subseteq> set (person_ids rels)"
    by (auto simp: select_persons_in_def)
  have "distinct (person_ids rels)"
    by (simp add: person_ids_def)
  then have "card (set (person_ids rels)) = length (person_ids rels)"
    by (rule distinct_card)
  moreover have "card (p_id ` set ?F) = length ?F"
    using distinct_card [OF d] by simp
  ultimately have "card (p_id ` set ?F) = card (set (person_ids rels))"
    using assms(2) by simp
  with sub have "p_id ` set ?F = set (person_ids rels)"
    by (intro card_subset_eq) simp_all
  moreover have "set ?F \<subseteq> set (persons db)"
    by (simp add: select_persons_in_def)
  ultimately show ?thesis by blast
qed

lemma insert_relationship_succeeds:
  assumes "relationships_primary_key db"
    and "select_existing db (person1_id v) (person2_id v) (relationship_type v) = []"
    and "person1_id v \<in> p_id ` set (persons db)"
    and "person2_id v \<in> p_id ` set (persons db)"
  shows "insert_relationship db v =
           Inr (db \<lparr> relationships :=
                       relationships db @ [new_row (relationships_auto_increment db) v],
                     relationships_auto_increment := relationships_auto_increment db + 1 \<rparr>,
                relationships_auto_increment db)"
proof -
  have "\<forall>r \<in> set (relationships db). r_id r < relationships_auto_increment db"
    using assms(1) by (simp add: relationships_primary_key_def list_all_iff)
  then have "relationships_auto_increment db \<notin> r_id ` set (relationships db)"
    by auto
  with assms(2-4) show ?thesis
    by (simp add: insert_relationship_def Let_def)
qed

lemma select_created_none:
  "\<forall>r \<in> set rs. r_id r \<noteq> i \<Longrightarrow>
     [with_names r q1 q2.
        r \<leftarrow> rs,
        q1 \<leftarrow> ps, r_person1_id r = p_id q1,
        q2 \<leftarrow> ps, r_person2_id r = p_id q2,
        r_id r = i] = []"
  by (induction rs) auto

lemma select_created_append:
  assumes "relationships db' = rs @ [nr]" and "persons db' = ps"
  shows "select_created db' i =
     [with_names r q1 q2.
        r \<leftarrow> rs,
        q1 \<leftarrow> ps, r_person1_id r = p_id q1,
        q2 \<leftarrow> ps, r_person2_id r = p_id q2,
        r_id r = i]
     @ [with_names nr q1 q2.
        q1 \<leftarrow> ps, r_person1_id nr = p_id q1,
        q2 \<leftarrow> ps, r_person2_id nr = p_id q2,
        r_id nr = i]"
  unfolding select_created_def assms by simp

lemma select_created_new:
  assumes "\<forall>r \<in> set (relationships db). r_id r \<noteq> i" and "r_id nr = i"
    and "p1 \<in> set (persons db)" and "p_id p1 = r_person1_id nr"
    and "p2 \<in> set (persons db)" and "p_id p2 = r_person2_id nr"
  shows "\<exists>q1 \<in> set (persons db). \<exists>q2 \<in> set (persons db).
           p_id q1 = r_person1_id nr \<and> p_id q2 = r_person2_id nr
           \<and> first_row (select_created
                 (db \<lparr> relationships := relationships db @ [nr],
                       relationships_auto_increment := k \<rparr>) i)
               = Some (with_names nr q1 q2)"
proof -
  let ?db' = "db \<lparr> relationships := relationships db @ [nr], relationships_auto_increment := k \<rparr>"
  let ?old = "[with_names r q1 q2.
        r \<leftarrow> relationships db,
        q1 \<leftarrow> persons db, r_person1_id r = p_id q1,
        q2 \<leftarrow> persons db, r_person2_id r = p_id q2,
        r_id r = i]"
  let ?new = "[with_names nr q1 q2.
        q1 \<leftarrow> persons db, r_person1_id nr = p_id q1,
        q2 \<leftarrow> persons db, r_person2_id nr = p_id q2,
        r_id nr = i]"
  have old: "?old = []"
    using assms(1) by (rule select_created_none)
  have "select_created ?db' i = ?old @ ?new"
    by (rule select_created_append) simp_all
  also have "\<dots> = ?new"
    by (simp only: old append_Nil)
  finally have eq: "select_created ?db' i = ?new" .
  have "with_names nr p1 p2 \<in> set ?new"
    using assms(2-6) by fastforce
  then obtain x xs where c: "?new = x # xs"
    by (cases ?new) auto
  then have "x \<in> set ?new" by simp
  then obtain q1 q2 where q: "q1 \<in> set (persons db)" "q2 \<in> set (persons db)"
    "p_id q1 = r_person1_id nr" "p_id q2 = r_person2_id nr" "x = with_names nr q1 q2"
    by auto
  have "first_row (select_created ?db' i) = Some x"
    by (simp only: eq c first_row_def list.case)
  with q show ?thesis
    by blast
qed


text \<open>
  A caller who is not \<^verbatim>\<open>admin\<close> reaches the call of the imported binding as soon as a
  person involved has a family, and the handler throws there: in the single creation, in
  the bulk creation and in the person view.
\<close>

lemma imported_call_throws:
  "post_relationship example_db (Some editor) (request 1 2 spouse wife)
     = (Inl TypeError, example_db)
   \<and> post_relationships_bulk example_db (Some editor) [request 1 5 sibling brother]
     = (Inl TypeError, example_db)
   \<and> get_person latin_ci example_db (Some stranger) 3 = Inl TypeError"
  by code_simp

lemma post_relationship_checks_subtype:
  assumes "validate_relationship_logic (relationship_type v) (relationship_subtype v) \<noteq> None"
  shows "snd (post_relationship db req_user v) = db"
    and "\<exists>e. fst (post_relationship db req_user v) = Inl e"
  using assms
  by (auto simp: post_relationship_def Let_def split: option.splits)

section \<open>Spouses\<close>

text \<open>
  C7. After a successful creation of the edge \<open>(a, b, spouse, husband)\<close>, the spouses of
  \<open>a\<close> include \<open>b\<close> and the spouses of \<open>b\<close> include \<open>a\<close>: the query matches the
  person on either end of the edge. (The primary key of \<^verbatim>\<open>persons\<close> is what makes the
  two endpoints of a created edge different persons.)
\<close>

theorem spouses_both_directions:
  assumes pk: "persons_primary_key db"
    and created: "post_relationship db req_user
           \<lparr> person1_id = a, person2_id = b, relationship_type = spouse,
             relationship_subtype = husband, marriage_date = md, divorce_date = dd \<rparr>
         = (Inr resp, db')"
  shows "b \<in> p_id ` set (get_spouses K db' a) \<and> a \<in> p_id ` set (get_spouses K db' b)"
proof -
  let ?v = "\<lparr> person1_id = a, person2_id = b, relationship_type = spouse,
             relationship_subtype = husband, marriage_date = md, divorce_date = dd \<rparr>"
  let ?i = "relationships_auto_increment db"
  note ok = post_relationship_Inr [OF created]
  have two: "length (select_persons_in db [a, b]) = 2"
    using ok(1) by simp
  have ab: "a \<noteq> b"
    using pk two by (rule two_rows_distinct_ids)
  note ins = insert_relationship_Inr [OF ok(2)]
  have db': "db' = db \<lparr> relationships := relationships db @ [new_row ?i ?v],
                    relationships_auto_increment := ?i + 1 \<rparr>"
    using ins(2) by simp
  from ins(3) obtain pa where pa: "pa \<in> set (persons db)" "p_id pa = a" by auto
  from ins(4) obtain pb where pb: "pb \<in> set (persons db)" "p_id pb = b" by auto
  have r: "new_row ?i ?v \<in> set (relationships db')"
    by (simp add: db')
  have t: "r_relationship_type (new_row ?i ?v) = spouse"
    by (simp add: new_row_def)
  have e: "r_person1_id (new_row ?i ?v) = a" "r_person2_id (new_row ?i ?v) = b"
    by (simp_all add: new_row_def)
  have ps: "persons db' = persons db"
    by (simp add: db')
  have "p_id pb \<in> p_id ` set (get_spouses K db' a)"
    using r t pb pa ab e ps by (intro spouse_edge_listed [of "new_row ?i ?v"]) auto
  moreover have "p_id pa \<in> p_id ` set (get_spouses K db' b)"
    using r t pb pa ab e ps by (intro spouse_edge_listed [of "new_row ?i ?v"]) auto
  ultimately show ?thesis
    using pa pb by simp
qed

theorem spouses_both_directions_witness:
  "persons_primary_key example_db
   \<and> post_relationship example_db (Some site_admin)
        \<lparr> person1_id = 5, person2_id = 4, relationship_type = spouse,
          relationship_subtype = husband, marriage_date = Some 9500, divorce_date = None \<rparr>
      = (Inr (Some (with_names
                (edge 6 5 4 spouse husband \<lparr> r_marriage_date := Some 9500 \<rparr>) edon ceni)),
         example_db \<lparr> relationships := relationships example_db
                         @ [edge 6 5 4 spouse husband \<lparr> r_marriage_date := Some 9500 \<rparr>],
                      relationships_auto_increment := 7 \<rparr>)
   \<and> 4 \<in> p_id ` set (get_spouses latin_ci
          (example_db \<lparr> relationships := relationships example_db
                         @ [edge 6 5 4 spouse husband \<lparr> r_marriage_date := Some 9500 \<rparr>],
                      relationships_auto_increment := 7 \<rparr>) 5)
   \<and> 5 \<in> p_id ` set (get_spouses latin_ci
          (example_db \<lparr> relationships := relationships example_db
                         @ [edge 6 5 4 spouse husband \<lparr> r_marriage_date := Some 9500 \<rparr>],
                      relationships_auto_increment := 7 \<rparr>) 4)"
proof -
  have pk: "persons_primary_key example_db"
    by code_simp
  have c: "post_relationship example_db (Some site_admin)
        \<lparr> person1_id = 5, person2_id = 4, relationship_type = spouse,
          relationship_subtype = husband, marriage_date = Some 9500, divorce_date = None \<rparr>
      = (Inr (Some (with_names
                (edge 6 5 4 spouse husband \<lparr> r_marriage_date := Some 9500 \<rparr>) edon ceni)),
         example_db \<lparr> relationships := relationships example_db
                         @ [edge 6 5 4 spouse husband \<lparr> r_marriage_date := Some 9500 \<rparr>],
                      relationships_auto_increment := 7 \<rparr>)"
    by code_simp
  show ?thesis
    by (intro conjI pk c spouses_both_directions [OF pk c, THEN conjunct1]
          spouses_both_directions [OF pk c, THEN conjunct2])
qed

section \<open>Uniqueness of edges\<close>

text \<open>
  C1, as the code has it. At most one edge is stored per ordered
  \<open>(person1_id, person2_id, relationship_type)\<close> triple: both creation handlers keep
  \<^verbatim>\<open>unique_relationship\<close>. When a row with the request's ordered triple exists, the
  single creation writes nothing and fails, and it fails with the error
  \<^verbatim>\<open>This relationship already exists\<close> once the caller is authenticated, both persons
  are found and the permission block throws nothing (as for an \<^verbatim>\<open>admin\<close> caller, or when
  neither person has a family). That error is produced only when a row with the
  same ordered triple exists, so an edge stored as \<open>(a, b, t)\<close> does not make a request
  for \<open>(b, a, t)\<close> a duplicate.
\<close>

theorem ordered_triple_unique:
  assumes "unique_relationship db"
  shows "unique_relationship (snd (post_relationship db req_user v))
    \<and> unique_relationship (snd (post_relationships_bulk db req_user rels))
    \<and> (select_existing db (person1_id v) (person2_id v) (relationship_type v) \<noteq> [] \<longrightarrow>
         snd (post_relationship db req_user v) = db
         \<and> (\<exists>e. fst (post_relationship db req_user v) = Inl e))
    \<and> (select_existing db (person1_id v) (person2_id v) (relationship_type v) \<noteq> []
        \<and> length (select_persons_in db [person1_id v, person2_id v]) = 2
        \<and> post_permissions db u (select_persons_in db [person1_id v, person2_id v]) v = None \<longrightarrow>
         post_relationship db (Some u) v =
           (Inl (createValidationError ''relationship'' ''This relationship already exists''), db))
    \<and> (fst (post_relationship db req_user v) =
          Inl (createValidationError ''relationship'' ''This relationship already exists'') \<longrightarrow>
         select_existing db (person1_id v) (person2_id v) (relationship_type v) \<noteq> [])"
  using post_relationship_unique [OF assms] post_relationships_bulk_unique [OF assms]
    post_relationship_existing post_relationship_duplicate post_relationship_duplicate_only
  by blast

theorem ordered_triple_unique_witness:
  "unique_relationship example_db
   \<and> select_existing example_db 1 2 spouse \<noteq> []
   \<and> length (select_persons_in example_db [1, 2]) = 2
   \<and> post_permissions example_db site_admin (select_persons_in example_db [1, 2])
        (request 1 2 spouse wife) = None
   \<and> post_relationship example_db (Some site_admin) (request 1 2 spouse wife) =
        (Inl (createValidationError ''relationship'' ''This relationship already exists''),
         example_db)"
proof -
  have h1: "unique_relationship example_db"
    by code_simp
  have h2: "select_existing example_db 1 2 spouse \<noteq> []"
    by code_simp
  have h3: "length (select_persons_in example_db [1, 2]) = 2"
    by code_simp
  have h4: "post_permissions example_db site_admin (select_persons_in example_db [1, 2])
        (request 1 2 spouse wife) = None"
    by code_simp
  show ?thesis
    using h1 h2 h3 h4
      ordered_triple_unique [OF h1, where req_user = "Some site_admin"
        and v = "request 1 2 spouse wife" and rels = "[]" and u = site_admin]
    by (simp add: request_def)
qed

text \<open>
  C1 as stated fails: with the edge \<open>(1, 2, spouse, husband)\<close> stored, the request
  \<open>(2, 1, spouse, wife)\<close> is not rejected; it is inserted, and the table then holds two
  \<^verbatim>\<open>spouse\<close> edges for the unordered pair.
\<close>

theorem reversed_pair_counterexample:
  "fst (post_relationship example_db (Some site_admin) (request 2 1 spouse wife))
     = Inr (Some (with_names (edge 6 2 1 spouse wife) besa agim))
   \<and> map (\<lambda>r. (r_person1_id r, r_person2_id r, r_relationship_type r))
        (filter (\<lambda>r. r_relationship_type r = spouse)
           (relationships
              (snd (post_relationship example_db (Some site_admin) (request 2 1 spouse wife)))))
     = [(1, 2, spouse), (2, 1, spouse)]"
  by code_simp

section \<open>Subtype validation\<close>

text \<open>
  C3. The single creation rejects \<open>(1, 5, parent_child, brother)\<close> with the subtype
  error and writes nothing, but the bulk creation, given the same request as its only
  item, inserts the edge and reports it as created: the bulk handler runs the schema
  check only and has no counterpart of \<^verbatim>\<open>// Validate relationship logic\<close>.
\<close>

theorem bulk_accepts_invalid_subtype:
  "post_relationship example_db (Some site_admin) (request 1 5 parent_child brother)
     = (Inl (createValidationError ''relationship_subtype''
               ''Parent-child relationships must be mother or father''), example_db)
   \<and> post_relationships_bulk example_db (Some site_admin) [request 1 5 parent_child brother]
     = (Inr \<lparr> response_relationships =
                [Some (with_names (edge 6 1 5 parent_child brother) agim edon)],
              response_message = ''Created 1 new relationships'' \<rparr>,
        example_db \<lparr> relationships := relationships example_db
                        @ [edge 6 1 5 parent_child brother],
                     relationships_auto_increment := 7 \<rparr>)"
  by code_simp

section \<open>Bulk creation\<close>

lemma bulk_example_batch:
  assumes pk: "persons_primary_key db" and rk: "relationships_primary_key db"
    and found: "length (select_persons_in db (person_ids [A, A, B])) = length (person_ids [A, A, B])"
    and perm: "u_role u = Role_admin
               \<or> bulk_permissions db u (select_persons_in db (person_ids [A, A, B])) = None"
    and dup: "select_existing db (person1_id A) (person2_id A) (relationship_type A) \<noteq> []"
    and new: "select_existing db (person1_id B) (person2_id B) (relationship_type B) = []"
  shows "\<exists>p1 \<in> set (persons db). \<exists>p2 \<in> set (persons db).
           p_id p1 = person1_id B \<and> p_id p2 = person2_id B
           \<and> post_relationships_bulk db (Some u) [A, A, B] =
               (Inr \<lparr> response_relationships =
                        [Some (with_names (new_row (relationships_auto_increment db) B) p1 p2)],
                      response_message = ''Created 1 new relationships'' \<rparr>,
                db \<lparr> relationships :=
                       relationships db @ [new_row (relationships_auto_increment db) B],
                     relationships_auto_increment := relationships_auto_increment db + 1 \<rparr>)"
proof -
  let ?i = "relationships_auto_increment db"
  let ?nr = "new_row ?i B"
  let ?db' = "db \<lparr> relationships := relationships db @ [?nr],
                   relationships_auto_increment := ?i + 1 \<rparr>"
  have "set (person_ids [A, A, B]) \<subseteq> p_id ` set (persons db)"
    using pk found by (rule all_persons_found)
  then have mem: "person1_id B \<in> p_id ` set (persons db)"
      "person2_id B \<in> p_id ` set (persons db)"
    by (simp_all add: set_person_ids)
  then obtain p1 p2 where p: "p1 \<in> set (persons db)" "p_id p1 = person1_id B"
      "p2 \<in> set (persons db)" "p_id p2 = person2_id B"
    by auto
  have ins: "insert_relationship db B = Inr (?db', ?i)"
    using rk new mem by (rule insert_relationship_succeeds)
  have fresh: "\<forall>r \<in> set (relationships db). r_id r \<noteq> ?i"
    using rk by (auto simp: relationships_primary_key_def list_all_iff)
  have "\<exists>q1 \<in> set (persons db). \<exists>q2 \<in> set (persons db).
           p_id q1 = r_person1_id ?nr \<and> p_id q2 = r_person2_id ?nr
           \<and> first_row (select_created ?db' ?i) = Some (with_names ?nr q1 q2)"
    using fresh _ p(1) _ p(3) by (rule select_created_new) (simp_all add: new_row_def p)
  then obtain q1 q2 where q: "q1 \<in> set (persons db)" "q2 \<in> set (persons db)"
      "p_id q1 = person1_id B" "p_id q2 = person2_id B"
      "first_row (select_created ?db' ?i) = Some (with_names ?nr q1 q2)"
    by (auto simp: new_row_def)
  have loop: "bulk_loop db [] [A, A, B] = (Inr [Some (with_names ?nr q1 q2)], ?db')"
    using dup new ins q(5) by simp
  have "post_relationships_bulk db (Some u) [A, A, B] =
               (Inr \<lparr> response_relationships = [Some (with_names ?nr q1 q2)],
                      response_message = ''Created 1 new relationships'' \<rparr>, ?db')"
    using found perm loop
    by (auto simp: post_relationships_bulk_def Let_def show_nat_1)
  with q(1-4) show ?thesis
    by blast
qed

lemma select_existing_stored:
  "select_existing db (person1_id v) (person2_id v) (relationship_type v) \<noteq> []
     \<longleftrightarrow> triple_of v \<in> set (stored_triples db)"
  by (force simp: select_existing_def stored_triples_def triple_of_def filter_empty_conv image_iff)

lemma created_entry_persons:
  "persons db' = persons db \<Longrightarrow> created_entry db' c row = created_entry db c row"
  by (simp add: created_entry_def)

lemma bulk_loop_result:
  assumes "relationships_primary_key db"
    and "\<forall>v \<in> set rels. person1_id v \<in> p_id ` set (persons db)
                          \<and> person2_id v \<in> p_id ` set (persons db)"
  shows "\<exists>created.
           bulk_loop db acc rels =
             (Inr (acc @ created),
              db \<lparr> relationships := relationships db
                      @ number_rows (relationships_auto_increment db)
                          (new_items (stored_triples db) rels),
                   relationships_auto_increment := relationships_auto_increment db
                      + int (length (new_items (stored_triples db) rels)) \<rparr>)
           \<and> list_all2 (created_entry db) created
                (number_rows (relationships_auto_increment db)
                   (new_items (stored_triples db) rels))"
  using assms
proof (induction rels arbitrary: db acc)
  case Nil
  then show ?case by simp
next
  case (Cons v vs)
  let ?i = "relationships_auto_increment db"
  have fk: "\<forall>v \<in> set vs. person1_id v \<in> p_id ` set (persons db)
                          \<and> person2_id v \<in> p_id ` set (persons db)"
    using Cons.prems(2) by simp
  show ?case
  proof (cases "triple_of v \<in> set (stored_triples db)")
    case True
    then have ex: "select_existing db (person1_id v) (person2_id v) (relationship_type v) \<noteq> []"
      by (simp add: select_existing_stored)
    from Cons.IH [OF Cons.prems(1) fk, of acc] True ex show ?thesis
      by simp
  next
    case False
    then have ex: "select_existing db (person1_id v) (person2_id v) (relationship_type v) = []"
      using select_existing_stored [of db v] by simp
    let ?db1 = "db \<lparr> relationships := relationships db @ [new_row ?i v],
                     relationships_auto_increment := ?i + 1 \<rparr>"
    have mem: "person1_id v \<in> p_id ` set (persons db)" "person2_id v \<in> p_id ` set (persons db)"
      using Cons.prems(2) by simp_all
    have ins: "insert_relationship db v = Inr (?db1, ?i)"
      using Cons.prems(1) ex mem by (rule insert_relationship_succeeds)
    have lt: "\<forall>r \<in> set (relationships db). r_id r < ?i"
      using Cons.prems(1) by (simp add: relationships_primary_key_def list_all_iff)
    then have fresh: "\<forall>r \<in> set (relationships db). r_id r \<noteq> ?i"
      by auto
    from mem obtain p1 p2 where p: "p1 \<in> set (persons db)" "p_id p1 = person1_id v"
        "p2 \<in> set (persons db)" "p_id p2 = person2_id v"
      by auto
    have "\<exists>q1 \<in> set (persons db). \<exists>q2 \<in> set (persons db).
           p_id q1 = r_person1_id (new_row ?i v) \<and> p_id q2 = r_person2_id (new_row ?i v)
           \<and> first_row (select_created ?db1 ?i) = Some (with_names (new_row ?i v) q1 q2)"
      using fresh _ p(1) _ p(3) by (rule select_created_new) (simp_all add: new_row_def p)
    then have c0: "created_entry db (first_row (select_created ?db1 ?i)) (new_row ?i v)"
      by (simp add: created_entry_def list_ex_iff)
    have rk1: "relationships_primary_key ?db1"
      using Cons.prems(1) lt fresh
      by (auto simp: relationships_primary_key_def list_all_iff new_row_def)
    have fk1: "\<forall>v \<in> set vs. person1_id v \<in> p_id ` set (persons ?db1)
                          \<and> person2_id v \<in> p_id ` set (persons ?db1)"
      using fk by simp
    have st1: "stored_triples ?db1 = stored_triples db @ [triple_of v]"
      by (simp add: stored_triples_def triple_of_def new_row_def)
    from Cons.IH [OF rk1 fk1, of "acc @ [first_row (select_created ?db1 ?i)]"]
    obtain created where
      loop: "bulk_loop ?db1 (acc @ [first_row (select_created ?db1 ?i)]) vs =
             (Inr ((acc @ [first_row (select_created ?db1 ?i)]) @ created),
              ?db1 \<lparr> relationships := relationships ?db1
                      @ number_rows (relationships_auto_increment ?db1)
                          (new_items (stored_triples ?db1) vs),
                   relationships_auto_increment := relationships_auto_increment ?db1
                      + int (length (new_items (stored_triples ?db1) vs)) \<rparr>)"
      and ents: "list_all2 (created_entry ?db1) created
                (number_rows (relationships_auto_increment ?db1)
                   (new_items (stored_triples ?db1) vs))"
      by blast
    have ce: "created_entry ?db1 = created_entry db"
      by (intro ext created_entry_persons) simp
    have "bulk_loop db acc (v # vs) =
             (Inr (acc @ (first_row (select_created ?db1 ?i) # created)),
              db \<lparr> relationships := relationships db
                      @ number_rows ?i (new_items (stored_triples db) (v # vs)),
                   relationships_auto_increment := ?i
                      + int (length (new_items (stored_triples db) (v # vs))) \<rparr>)"
      using ex ins loop False by (simp add: st1)
    moreover have "list_all2 (created_entry db) (first_row (select_created ?db1 ?i) # created)
                (number_rows ?i (new_items (stored_triples db) (v # vs)))"
      using c0 ents False by (simp add: st1 ce)
    ultimately show ?thesis by blast
  qed
qed

text \<open>
  C4, as the code has it. The response of the bulk creation has the two fields
  \<^verbatim>\<open>relationships\<close> (the created rows) and \<^verbatim>\<open>message\<close>, and no count of skipped
  items. For every batch that passes the batch-wide checks, the items are taken in
  order: an item whose ordered triple is stored, or is that of an earlier item of the
  batch, is passed over without an error; every other item is inserted with the next id,
  and the response lists exactly the inserted rows, in order, with the message
  \<^verbatim>\<open>Created n new relationships\<close> for their number \<open>n\<close>. In particular, for
  \<open>[A, A, B]\<close> where a row with the ordered triple of \<open>A\<close> is stored and none with
  that of \<open>B\<close>, the one created row is that of \<open>B\<close>.
\<close>

theorem bulk_skips_duplicates:
  assumes pk: "persons_primary_key db" and rk: "relationships_primary_key db"
    and nonempty: "rels \<noteq> []"
    and found: "length (select_persons_in db (person_ids rels)) = length (person_ids rels)"
    and perm: "u_role u = Role_admin
               \<or> bulk_permissions db u (select_persons_in db (person_ids rels)) = None"
  shows "(\<exists>created.
            post_relationships_bulk db (Some u) rels =
              (Inr \<lparr> response_relationships = created,
                     response_message =
                       ''Created '' @ show_nat (length created) @ '' new relationships'' \<rparr>,
               db \<lparr> relationships := relationships db
                       @ number_rows (relationships_auto_increment db)
                           (new_items (stored_triples db) rels),
                    relationships_auto_increment := relationships_auto_increment db
                       + int (length (new_items (stored_triples db) rels)) \<rparr>)
            \<and> list_all2 (created_entry db) created
                 (number_rows (relationships_auto_increment db)
                    (new_items (stored_triples db) rels)))
       \<and> (rels = [A, A, B]
           \<and> select_existing db (person1_id A) (person2_id A) (relationship_type A) \<noteq> []
           \<and> select_existing db (person1_id B) (person2_id B) (relationship_type B) = [] \<longrightarrow>
           new_items (stored_triples db) rels = [B]
           \<and> (\<exists>p1 \<in> set (persons db). \<exists>p2 \<in> set (persons db).
                 p_id p1 = person1_id B \<and> p_id p2 = person2_id B
                 \<and> post_relationships_bulk db (Some u) rels =
                     (Inr \<lparr> response_relationships =
                              [Some (with_names (new_row (relationships_auto_increment db) B)
                                       p1 p2)],
                            response_message = ''Created 1 new relationships'' \<rparr>,
                      db \<lparr> relationships := relationships db
                              @ [new_row (relationships_auto_increment db) B],
                           relationships_auto_increment :=
                             relationships_auto_increment db + 1 \<rparr>)))"
proof (intro conjI impI)
  have "set (person_ids rels) \<subseteq> p_id ` set (persons db)"
    using pk found by (rule all_persons_found)
  then have fk: "\<forall>v \<in> set rels. person1_id v \<in> p_id ` set (persons db)
                          \<and> person2_id v \<in> p_id ` set (persons db)"
    by (auto simp: set_person_ids)
  from bulk_loop_result [OF rk fk, of "[]"] obtain created where
    loop: "bulk_loop db [] rels =
             (Inr created,
              db \<lparr> relationships := relationships db
                      @ number_rows (relationships_auto_increment db)
                          (new_items (stored_triples db) rels),
                   relationships_auto_increment := relationships_auto_increment db
                      + int (length (new_items (stored_triples db) rels)) \<rparr>)"
    and ents: "list_all2 (created_entry db) created
                 (number_rows (relationships_auto_increment db)
                    (new_items (stored_triples db) rels))"
    by auto
  have "post_relationships_bulk db (Some u) rels =
              (Inr \<lparr> response_relationships = created,
                     response_message =
                       ''Created '' @ show_nat (length created) @ '' new relationships'' \<rparr>,
               db \<lparr> relationships := relationships db
                       @ number_rows (relationships_auto_increment db)
                           (new_items (stored_triples db) rels),
                    relationships_auto_increment := relationships_auto_increment db
                       + int (length (new_items (stored_triples db) rels)) \<rparr>)"
    using nonempty found perm loop
    by (auto simp: post_relationships_bulk_def Let_def)
  with ents show "\<exists>created.
            post_relationships_bulk db (Some u) rels =
              (Inr \<lparr> response_relationships = created,
                     response_message =
                       ''Created '' @ show_nat (length created) @ '' new relationships'' \<rparr>,
               db \<lparr> relationships := relationships db
                       @ number_rows (relationships_auto_increment db)
                           (new_items (stored_triples db) rels),
                    relationships_auto_increment := relationships_auto_increment db
                       + int (length (new_items (stored_triples db) rels)) \<rparr>)
            \<and> list_all2 (created_entry db) created
                 (number_rows (relationships_auto_increment db)
                    (new_items (stored_triples db) rels))"
    by blast
next
  assume h: "rels = [A, A, B]
           \<and> select_existing db (person1_id A) (person2_id A) (relationship_type A) \<noteq> []
           \<and> select_existing db (person1_id B) (person2_id B) (relationship_type B) = []"
  then show "new_items (stored_triples db) rels = [B]"
    using select_existing_stored [of db A] select_existing_stored [of db B] by simp
next
  assume h: "rels = [A, A, B]
           \<and> select_existing db (person1_id A) (person2_id A) (relationship_type A) \<noteq> []
           \<and> select_existing db (person1_id B) (person2_id B) (relationship_type B) = []"
  then have r: "rels = [A, A, B]" by simp
  show "\<exists>p1 \<in> set (persons db). \<exists>p2 \<in> set (persons db).
                 p_id p1 = person1_id B \<and> p_id p2 = person2_id B
                 \<and> post_relationships_bulk db (Some u) rels =
                     (Inr \<lparr> response_relationships =
                              [Some (with_names (new_row (relationships_auto_increment db) B)
                                       p1 p2)],
                            response_message = ''Created 1 new relationships'' \<rparr>,
                      db \<lparr> relationships := relationships db
                              @ [new_row (relationships_auto_increment db) B],
                           relationships_auto_increment :=
                             relationships_auto_increment db + 1 \<rparr>)"
    unfolding r
    using pk rk found [unfolded r] perm [unfolded r] h [THEN conjunct2, THEN conjunct1]
      h [THEN conjunct2, THEN conjunct2]
    by (rule bulk_example_batch)
qed

theorem bulk_skips_duplicates_witness:
  "persons_primary_key example_db
   \<and> relationships_primary_key example_db
   \<and> [request 1 2 spouse husband, request 1 2 spouse husband,
        request 1 5 sibling brother] \<noteq> []
   \<and> length (select_persons_in example_db
        (person_ids [request 1 2 spouse husband, request 1 2 spouse husband,
                     request 1 5 sibling brother]))
      = length (person_ids [request 1 2 spouse husband, request 1 2 spouse husband,
                            request 1 5 sibling brother])
   \<and> (u_role site_admin = Role_admin
        \<or> bulk_permissions example_db site_admin
             (select_persons_in example_db
                (person_ids [request 1 2 spouse husband, request 1 2 spouse husband,
                             request 1 5 sibling brother])) = None)
   \<and> select_existing example_db (person1_id (request 1 2 spouse husband))
        (person2_id (request 1 2 spouse husband))
        (relationship_type (request 1 2 spouse husband)) \<noteq> []
   \<and> select_existing example_db (person1_id (request 1 5 sibling brother))
        (person2_id (request 1 5 sibling brother))
        (relationship_type (request 1 5 sibling brother)) = []
   \<and> new_items (stored_triples example_db)
        [request 1 2 spouse husband, request 1 2 spouse husband,
         request 1 5 sibling brother] = [request 1 5 sibling brother]
   \<and> (\<exists>p1 \<in> set (persons example_db). \<exists>p2 \<in> set (persons example_db).
           p_id p1 = person1_id (request 1 5 sibling brother)
           \<and> p_id p2 = person2_id (request 1 5 sibling brother)
           \<and> post_relationships_bulk example_db (Some site_admin)
                [request 1 2 spouse husband, request 1 2 spouse husband,
                 request 1 5 sibling brother] =
               (Inr \<lparr> response_relationships =
                        [Some (with_names
                           (new_row (relationships_auto_increment example_db)
                              (request 1 5 sibling brother)) p1 p2)],
                      response_message = ''Created 1 new relationships'' \<rparr>,
                example_db \<lparr> relationships :=
                       relationships example_db
                         @ [new_row (relationships_auto_increment example_db)
                              (request 1 5 sibling brother)],
                     relationships_auto_increment :=
                       relationships_auto_increment example_db + 1 \<rparr>))"
proof -
  have h1: "persons_primary_key example_db"
    by code_simp
  have h2: "relationships_primary_key example_db"
    by code_simp
  have h0: "[request 1 2 spouse husband, request 1 2 spouse husband,
        request 1 5 sibling brother] \<noteq> []"
    by simp
  have h3: "length (select_persons_in example_db
        (person_ids [request 1 2 spouse husband, request 1 2 spouse husband,
                     request 1 5 sibling brother]))
      = length (person_ids [request 1 2 spouse husband, request 1 2 spouse husband,
                            request 1 5 sibling brother])"
    by code_simp
  have h4: "u_role site_admin = Role_admin
        \<or> bulk_permissions example_db site_admin
             (select_persons_in example_db
                (person_ids [request 1 2 spouse husband, request 1 2 spouse husband,
                             request 1 5 sibling brother])) = None"
    by (simp add: site_admin_def)
  have h5: "select_existing example_db (person1_id (request 1 2 spouse husband))
        (person2_id (request 1 2 spouse husband))
        (relationship_type (request 1 2 spouse husband)) \<noteq> []"
    by code_simp
  have h6: "select_existing example_db (person1_id (request 1 5 sibling brother))
        (person2_id (request 1 5 sibling brother))
        (relationship_type (request 1 5 sibling brother)) = []"
    by code_simp
  note t = bulk_skips_duplicates [OF h1 h2 h0 h3 h4,
      where A = "request 1 2 spouse husband" and B = "request 1 5 sibling brother"]
  note e = t [THEN conjunct2, THEN mp, OF conjI [OF refl conjI [OF h5 h6]]]
  show ?thesis
    by (intro conjI h1 h2 h0 h3 h4 h5 h6 e [THEN conjunct1] e [THEN conjunct2])
qed

text \<open>
  C4 as stated fails: the response to \<open>[A, A, B]\<close> is the one created row and the
  message, and it is the very response (and database) that the batch \<open>[B]\<close> alone
  produces, so no count of the two skipped items is reported.
\<close>

theorem bulk_no_skipped_count_counterexample:
  "fst (post_relationships_bulk example_db (Some site_admin)
          [request 1 2 spouse husband, request 1 2 spouse husband,
           request 1 5 sibling brother])
     = Inr \<lparr> response_relationships =
               [Some (with_names (edge 6 1 5 sibling brother) agim edon)],
             response_message = ''Created 1 new relationships'' \<rparr>
   \<and> post_relationships_bulk example_db (Some site_admin)
          [request 1 2 spouse husband, request 1 2 spouse husband,
           request 1 5 sibling brother]
     = post_relationships_bulk example_db (Some site_admin) [request 1 5 sibling brother]"
  by code_simp

end
